theory Spec2Isabelle
  imports Main "HOL-Library.AList"
begin

unbundle bit_operations_syntax

section \<open>Output definitions of deepmd.dpmodel.output\_def\<close>

subsection \<open>Operations and categories\<close>

text \<open>
  \<^verbatim>\<open>class OutputVariableOperation(IntEnum)\<close>. The members \<^verbatim>\<open>_NONE\<close> and
  \<^verbatim>\<open>_SEC_DERV_R\<close> are written \<open>Op_NONE\<close> and \<open>Op_SEC_DERV_R\<close>.
\<close>

datatype OutputVariableOperation =
  Op_NONE | REDU | DERV_R | DERV_C | Op_SEC_DERV_R | MAG

fun op_value :: "OutputVariableOperation \<Rightarrow> int" where
  "op_value Op_NONE = 0"
| "op_value REDU = 1"
| "op_value DERV_R = 2"
| "op_value DERV_C = 4"
| "op_value Op_SEC_DERV_R = 8"
| "op_value MAG = 16"

text \<open>\<^verbatim>\<open>class OutputVariableCategory(IntEnum)\<close>; the members are bitwise combinations of operations.\<close>

datatype OutputVariableCategory =
  Cat_OUT | Cat_REDU | Cat_DERV_R | Cat_DERV_C | Cat_DERV_C_REDU
  | Cat_DERV_R_DERV_R | Cat_DERV_R_MAG | Cat_DERV_C_MAG

fun category_value :: "OutputVariableCategory \<Rightarrow> int" where
  "category_value Cat_OUT = op_value Op_NONE"
| "category_value Cat_REDU = op_value REDU"
| "category_value Cat_DERV_R = op_value DERV_R"
| "category_value Cat_DERV_C = op_value DERV_C"
| "category_value Cat_DERV_C_REDU = op_value DERV_C OR op_value REDU"
| "category_value Cat_DERV_R_DERV_R = op_value DERV_R OR op_value Op_SEC_DERV_R"
| "category_value Cat_DERV_R_MAG = op_value DERV_R OR op_value MAG"
| "category_value Cat_DERV_C_MAG = op_value DERV_C OR op_value MAG"

subsection \<open>Errors\<close>

text \<open>
  Every \<^verbatim>\<open>raise\<close> and every failing \<^verbatim>\<open>assert\<close>, subscript or dictionary lookup of the
  module is a value. A \<^verbatim>\<open>ValueError\<close> carries its message: the template of the f-string
  together with the values formatted into it.
\<close>

datatype message =
    ShapeNotMatching "int list" "int list"
      \<comment> \<open>\<^verbatim>\<open>f"{shape} shape not matching def {def_shape}"\<close>\<close>
  | LengthNotMatching "int list" "int list"
      \<comment> \<open>\<^verbatim>\<open>f"{var.shape[2:]} length not matching def {var_def.shape}"\<close>\<close>
  | CDiffRequiresRDiff
      \<comment> \<open>\<^verbatim>\<open>"c differentiable requires r_differentiable"\<close>\<close>
  | ReducibleShouldBeAtomic
      \<comment> \<open>\<^verbatim>\<open>"a reducible variable should be atomic"\<close>\<close>
  | IntensiveShouldBeReducible
      \<comment> \<open>\<^verbatim>\<open>"an intensive variable should be reducible"\<close>\<close>
  | HessianOnlyReducible
      \<comment> \<open>\<^verbatim>\<open>"only reducible variable can calculate hessian"\<close>\<close>
  | HessianOnlyRDifferentiable
      \<comment> \<open>\<^verbatim>\<open>"only r_differentiable variable can calculate hessian"\<close>\<close>
  | OperationApplied OutputVariableOperation
      \<comment> \<open>\<^verbatim>\<open>f"operation {op} has been applied"\<close>\<close>
  | OperationAppliedTwice OutputVariableOperation
      \<comment> \<open>\<^verbatim>\<open>f"operation {op} has been applied twice"\<close>\<close>
  | OperationNotSupported OutputVariableOperation
      \<comment> \<open>\<^verbatim>\<open>f"operation {op} not supported"\<close>\<close>

datatype error =
    ValueError message
  | AssertionError
  | IndexError
  | KeyError string

subsection \<open>Dictionaries\<close>

text \<open>
  A Python \<^verbatim>\<open>dict\<close> keeps its keys in insertion order and an assignment to a key that is
  present replaces the value in place: an association list under \<open>AList.update\<close>.
\<close>

type_synonym 'v dict = "(string \<times> 'v) list"

definition dict_keys :: "'v dict \<Rightarrow> string list" where
  "dict_keys d = map fst d"

definition dict_getitem :: "'v dict \<Rightarrow> string \<Rightarrow> error + 'v" where
  "dict_getitem d k = (case map_of d k of None \<Rightarrow> Inl (KeyError k) | Some v \<Rightarrow> Inr v)"

definition dict_setitem :: "string \<Rightarrow> 'v \<Rightarrow> 'v dict \<Rightarrow> 'v dict" where
  "dict_setitem k v d = AList.update k v d"

text \<open>\<^verbatim>\<open>d.update(other)\<close> assigns the items of \<^verbatim>\<open>other\<close> in their order.\<close>

definition dict_update :: "'v dict \<Rightarrow> 'v dict \<Rightarrow> 'v dict" where
  "dict_update d other = foldl (\<lambda>acc (k, v). dict_setitem k v acc) d other"

subsection \<open>Shape checks\<close>

text \<open>
  \<^verbatim>\<open>check_shape(shape, def_shape)\<close>. The subscript \<^verbatim>\<open>def_shape[-1]\<close> raises
  \<^verbatim>\<open>IndexError\<close> on an empty list; \<^verbatim>\<open>shape[:-1]\<close> is \<open>butlast\<close>.
\<close>

definition check_shape :: "int list \<Rightarrow> int list \<Rightarrow> error + unit" where
  "check_shape shape def_shape =
     (if length shape \<noteq> length def_shape then Inl AssertionError
      else if def_shape = [] then Inl IndexError
      else if last def_shape = - 1 then
        (if butlast shape \<noteq> butlast def_shape
         then Inl (ValueError (ShapeNotMatching (butlast shape) (butlast def_shape)))
         else Inr ())
      else
        (if shape \<noteq> def_shape
         then Inl (ValueError (ShapeNotMatching shape def_shape))
         else Inr ()))"

subsection \<open>Variable definitions\<close>

record OutputVariableDef =
  name :: string
  shape :: "int list"
  output_size :: int
  atomic :: bool
  reducible :: bool
  r_differentiable :: bool
  c_differentiable :: bool
  intensive :: bool
  category :: int
  r_hessian :: bool
  magnetic :: bool

text \<open>
  The loop \<^verbatim>\<open>for i in range(len_shape): self.output_size *= self.shape[i]\<close>,
  started at \<^verbatim>\<open>self.output_size = 1\<close>.
\<close>

fun output_size_loop :: "int list \<Rightarrow> int \<Rightarrow> int" where
  "output_size_loop [] acc = acc"
| "output_size_loop (s # ss) acc = output_size_loop ss (acc * s)"

text \<open>
  \<^verbatim>\<open>OutputVariableDef.__init__\<close>, with every keyword argument passed explicitly, in the
  order of the signature: name, shape, reducible, r\_differentiable, c\_differentiable, atomic,
  category, r\_hessian, magnetic, intensive. The defaults of the signature are
  \<^verbatim>\<open>False, False, False, True, OutputVariableCategory.OUT.value, False, False, False\<close>.
\<close>

definition OutputVariableDef_init ::
  "string \<Rightarrow> int list \<Rightarrow> bool \<Rightarrow> bool \<Rightarrow> bool \<Rightarrow> bool \<Rightarrow> int \<Rightarrow> bool \<Rightarrow> bool \<Rightarrow> bool
     \<Rightarrow> error + OutputVariableDef" where
  "OutputVariableDef_init nm shp redu r_diff c_diff atm cat r_hess mag intens =
     (if c_diff \<and> \<not> r_diff then Inl (ValueError CDiffRequiresRDiff)
      else if redu \<and> \<not> atm then Inl (ValueError ReducibleShouldBeAtomic)
      else if intens \<and> \<not> redu then Inl (ValueError IntensiveShouldBeReducible)
      else if r_hess \<and> \<not> redu then Inl (ValueError HessianOnlyReducible)
      else if r_hess \<and> \<not> r_diff then Inl (ValueError HessianOnlyRDifferentiable)
      else Inr \<lparr> name = nm, shape = shp, output_size = output_size_loop shp 1,
                 atomic = atm, reducible = redu, r_differentiable = r_diff,
                 c_differentiable = c_diff, intensive = intens, category = cat,
                 r_hessian = r_hess, magnetic = mag \<rparr>)"

text \<open>The property \<^verbatim>\<open>size\<close>.\<close>

definition size_of :: "OutputVariableDef \<Rightarrow> int" where
  "size_of self = output_size self"

text \<open>
  \<^verbatim>\<open>check_var(var, var_def)\<close> reads only \<^verbatim>\<open>var.shape\<close>: a tensor is any record
  with a shape.
\<close>

record tensor =
  tshape :: "int list"

definition check_var :: "'a tensor_scheme \<Rightarrow> OutputVariableDef \<Rightarrow> error + unit" where
  "check_var var var_def =
     (if atomic var_def then
        (if length (tshape var) \<noteq> length (shape var_def) + 2
         then Inl (ValueError (LengthNotMatching (drop 2 (tshape var)) (shape var_def)))
         else check_shape (drop 2 (tshape var)) (shape var_def))
      else
        (if length (tshape var) \<noteq> length (shape var_def) + 1
         then Inl (ValueError (LengthNotMatching (drop 1 (tshape var)) (shape var_def)))
         else check_shape (drop 1 (tshape var)) (shape var_def)))"

subsection \<open>The category algebra\<close>

definition check_operation_applied :: "OutputVariableDef \<Rightarrow> OutputVariableOperation \<Rightarrow> bool" where
  "check_operation_applied var_def op \<longleftrightarrow> category var_def AND op_value op = op_value op"

definition apply_operation :: "OutputVariableDef \<Rightarrow> OutputVariableOperation \<Rightarrow> error + int" where
  "apply_operation var_def op =
     (if op = REDU \<or> op = DERV_C then
        (if check_operation_applied var_def op
         then Inl (ValueError (OperationApplied op))
         else Inr (category var_def OR op_value op))
      else if op = DERV_R then
        (if check_operation_applied var_def DERV_R then
           (if check_operation_applied var_def Op_SEC_DERV_R
            then Inl (ValueError (OperationAppliedTwice Op_SEC_DERV_R))
            else Inr (category var_def OR op_value Op_SEC_DERV_R))
         else Inr (category var_def OR op_value DERV_R))
      else Inl (ValueError (OperationNotSupported op)))"

definition check_deriv :: "OutputVariableDef \<Rightarrow> bool" where
  "check_deriv var_def \<longleftrightarrow>
     check_operation_applied var_def DERV_R
     \<or> check_operation_applied var_def Op_SEC_DERV_R
     \<or> check_operation_applied var_def DERV_C"

subsection \<open>Derived names\<close>

definition get_reduce_name :: "string \<Rightarrow> string" where
  "get_reduce_name nm = nm @ ''_redu''"

definition get_deriv_name :: "string \<Rightarrow> string \<times> string" where
  "get_deriv_name nm = (nm @ ''_derv_r'', nm @ ''_derv_c'')"

definition get_deriv_name_mag :: "string \<Rightarrow> string \<times> string" where
  "get_deriv_name_mag nm = (nm @ ''_derv_r_mag'', nm @ ''_derv_c_mag'')"

definition get_hessian_name :: "string \<Rightarrow> string" where
  "get_hessian_name nm = nm @ ''_derv_r_derv_r''"

subsection \<open>Derivation rules\<close>

text \<open>
  Each \<^verbatim>\<open>for kk, vv in def_outp_data.items()\<close> loop is a recursion over the items with
  the dictionaries under construction as accumulators; an exception leaves the loop. The
  arguments of a call are evaluated before the call, so \<^verbatim>\<open>apply_operation\<close> runs
  before the constructor it feeds.
\<close>

definition do_reduce_body ::
  "string \<Rightarrow> OutputVariableDef \<Rightarrow> OutputVariableDef dict \<Rightarrow> error + OutputVariableDef dict" where
  "do_reduce_body kk vv def_redu =
     (if reducible vv then
        (let rk = get_reduce_name kk in
         case apply_operation vv REDU of
           Inl e \<Rightarrow> Inl e
         | Inr cat \<Rightarrow>
             (case OutputVariableDef_init rk (shape vv) False False False False cat
                     False False False of
                Inl e \<Rightarrow> Inl e
              | Inr d \<Rightarrow> Inr (dict_setitem rk d def_redu)))
      else Inr def_redu)"

fun do_reduce_loop ::
  "OutputVariableDef dict \<Rightarrow> OutputVariableDef dict \<Rightarrow> error + OutputVariableDef dict" where
  "do_reduce_loop [] def_redu = Inr def_redu"
| "do_reduce_loop ((kk, vv) # items) def_redu =
     (case do_reduce_body kk vv def_redu of
        Inl e \<Rightarrow> Inl e
      | Inr def_redu' \<Rightarrow> do_reduce_loop items def_redu')"

definition do_reduce :: "OutputVariableDef dict \<Rightarrow> error + OutputVariableDef dict" where
  "do_reduce def_outp_data = do_reduce_loop def_outp_data []"

fun do_mask_loop ::
  "OutputVariableDef dict \<Rightarrow> OutputVariableDef dict \<Rightarrow> error + OutputVariableDef dict" where
  "do_mask_loop [] def_mask = Inr def_mask"
| "do_mask_loop ((kk, vv) # items) def_mask =
     (if magnetic vv then
        (case OutputVariableDef_init ''mask_mag'' [1] False False False True
                (category_value Cat_OUT) False False False of
           Inl e \<Rightarrow> Inl e
         | Inr d \<Rightarrow> do_mask_loop items (dict_setitem ''mask_mag'' d def_mask))
      else do_mask_loop items def_mask)"

definition do_mask :: "OutputVariableDef dict \<Rightarrow> error + OutputVariableDef dict" where
  "do_mask def_outp_data =
     (case OutputVariableDef_init ''mask'' [1] False False False True
             (category_value Cat_OUT) False False False of
        Inl e \<Rightarrow> Inl e
      | Inr d \<Rightarrow> do_mask_loop def_outp_data (dict_setitem ''mask'' d []))"

text \<open>The block under \<^verbatim>\<open>if vv.r_differentiable:\<close>, which writes to \<^verbatim>\<open>def_derv_r\<close>.\<close>

definition derv_r_block ::
  "string \<Rightarrow> OutputVariableDef \<Rightarrow> OutputVariableDef dict \<Rightarrow> error + OutputVariableDef dict" where
  "derv_r_block kk vv def_derv_r =
     (let rkr = fst (get_deriv_name kk); rkrm = fst (get_deriv_name_mag kk) in
      if r_differentiable vv then
        (case apply_operation vv DERV_R of
           Inl e \<Rightarrow> Inl e
         | Inr cat \<Rightarrow>
             (case OutputVariableDef_init rkr (shape vv @ [3]) False
                     (r_hessian vv \<and> category vv = category_value Cat_OUT)
                     False True cat False False False of
                Inl e \<Rightarrow> Inl e
              | Inr d \<Rightarrow>
                  (let def_derv_r1 = dict_setitem rkr d def_derv_r in
                   if magnetic vv then
                     (case apply_operation vv DERV_R of
                        Inl e \<Rightarrow> Inl e
                      | Inr catm \<Rightarrow>
                          (case OutputVariableDef_init rkrm (shape vv @ [3]) False
                                  (r_hessian vv \<and> category vv = category_value Cat_OUT)
                                  False True catm False True False of
                             Inl e \<Rightarrow> Inl e
                           | Inr dm \<Rightarrow> Inr (dict_setitem rkrm dm def_derv_r1)))
                   else Inr def_derv_r1)))
      else Inr def_derv_r)"

text \<open>
  The block under \<^verbatim>\<open>if vv.c_differentiable:\<close>, which writes the plain entry to
  \<^verbatim>\<open>def_derv_c\<close> and the magnetic entry to \<^verbatim>\<open>def_derv_r\<close>.
\<close>

definition derv_c_block ::
  "string \<Rightarrow> OutputVariableDef \<Rightarrow> OutputVariableDef dict \<Rightarrow> OutputVariableDef dict
     \<Rightarrow> error + (OutputVariableDef dict \<times> OutputVariableDef dict)" where
  "derv_c_block kk vv def_derv_r def_derv_c =
     (let rkc = snd (get_deriv_name kk); rkcm = snd (get_deriv_name_mag kk) in
      if c_differentiable vv then
        (if \<not> r_differentiable vv then Inl AssertionError
         else
           (case apply_operation vv DERV_C of
              Inl e \<Rightarrow> Inl e
            | Inr cat \<Rightarrow>
                (case OutputVariableDef_init rkc (shape vv @ [9]) True False False True cat
                        False False False of
                   Inl e \<Rightarrow> Inl e
                 | Inr d \<Rightarrow>
                     (let def_derv_c1 = dict_setitem rkc d def_derv_c in
                      if magnetic vv then
                        (case apply_operation vv DERV_C of
                           Inl e \<Rightarrow> Inl e
                         | Inr catm \<Rightarrow>
                             (case OutputVariableDef_init rkcm (shape vv @ [9]) True False False
                                     True catm False True False of
                                Inl e \<Rightarrow> Inl e
                              | Inr dm \<Rightarrow> Inr (dict_setitem rkcm dm def_derv_r, def_derv_c1)))
                      else Inr (def_derv_r, def_derv_c1)))))
      else Inr (def_derv_r, def_derv_c))"

definition do_derivative_body ::
  "string \<Rightarrow> OutputVariableDef \<Rightarrow> OutputVariableDef dict \<Rightarrow> OutputVariableDef dict
     \<Rightarrow> error + (OutputVariableDef dict \<times> OutputVariableDef dict)" where
  "do_derivative_body kk vv def_derv_r def_derv_c =
     (case derv_r_block kk vv def_derv_r of
        Inl e \<Rightarrow> Inl e
      | Inr def_derv_r1 \<Rightarrow> derv_c_block kk vv def_derv_r1 def_derv_c)"

fun do_derivative_loop ::
  "OutputVariableDef dict \<Rightarrow> OutputVariableDef dict \<Rightarrow> OutputVariableDef dict
     \<Rightarrow> error + (OutputVariableDef dict \<times> OutputVariableDef dict)" where
  "do_derivative_loop [] def_derv_r def_derv_c = Inr (def_derv_r, def_derv_c)"
| "do_derivative_loop ((kk, vv) # items) def_derv_r def_derv_c =
     (case do_derivative_body kk vv def_derv_r def_derv_c of
        Inl e \<Rightarrow> Inl e
      | Inr (def_derv_r', def_derv_c') \<Rightarrow> do_derivative_loop items def_derv_r' def_derv_c')"

definition do_derivative ::
  "OutputVariableDef dict \<Rightarrow> error + (OutputVariableDef dict \<times> OutputVariableDef dict)" where
  "do_derivative def_outp_data = do_derivative_loop def_outp_data [] []"

subsection \<open>Fitting and model output definitions\<close>

text \<open>\<^verbatim>\<open>FittingOutputDef.__init__\<close>: \<^verbatim>\<open>{vv.name: vv for vv in var_defs}\<close>.\<close>

record FittingOutputDef =
  fit_var_defs :: "OutputVariableDef dict"

definition FittingOutputDef_init :: "OutputVariableDef list \<Rightarrow> FittingOutputDef" where
  "FittingOutputDef_init vds =
     \<lparr> fit_var_defs = foldl (\<lambda>acc vv. dict_setitem (name vv) vv acc) [] vds \<rparr>"

definition fit_get_data :: "FittingOutputDef \<Rightarrow> OutputVariableDef dict" where
  "fit_get_data self = fit_var_defs self"


definition fit_getitem :: "FittingOutputDef \<Rightarrow> string \<Rightarrow> error + OutputVariableDef" where
  "fit_getitem self k = dict_getitem (fit_var_defs self) k"

record ModelOutputDef =
  def_outp :: FittingOutputDef
  def_redu :: "OutputVariableDef dict"
  def_derv_r :: "OutputVariableDef dict"
  def_derv_c :: "OutputVariableDef dict"
  def_hess_r :: "OutputVariableDef dict"
  def_derv_c_redu :: "OutputVariableDef dict"
  def_mask :: "OutputVariableDef dict"
  var_defs :: "OutputVariableDef dict"

definition ModelOutputDef_init :: "FittingOutputDef \<Rightarrow> error + ModelOutputDef" where
  "ModelOutputDef_init fit_defs =
     (case do_reduce (fit_get_data fit_defs) of
        Inl e \<Rightarrow> Inl e
      | Inr redu \<Rightarrow>
     (case do_derivative (fit_get_data fit_defs) of
        Inl e \<Rightarrow> Inl e
      | Inr (derv_r, derv_c) \<Rightarrow>
     (case do_derivative derv_r of
        Inl e \<Rightarrow> Inl e
      | Inr (hess_r, _) \<Rightarrow>
     (case do_reduce derv_c of
        Inl e \<Rightarrow> Inl e
      | Inr derv_c_redu \<Rightarrow>
     (case do_mask (fit_get_data fit_defs) of
        Inl e \<Rightarrow> Inl e
      | Inr masks \<Rightarrow>
          Inr \<lparr> def_outp = fit_defs, def_redu = redu, def_derv_r = derv_r,
                def_derv_c = derv_c, def_hess_r = hess_r, def_derv_c_redu = derv_c_redu,
                def_mask = masks,
                var_defs = foldl dict_update []
                  [fit_get_data fit_defs, redu, derv_c, derv_r, derv_c_redu, hess_r, masks] \<rparr>)))))"

definition md_getitem :: "ModelOutputDef \<Rightarrow> string \<Rightarrow> error + OutputVariableDef" where
  "md_getitem self k = dict_getitem (var_defs self) k"

definition md_keys :: "ModelOutputDef \<Rightarrow> string list" where
  "md_keys self = dict_keys (var_defs self)"


definition keys_redu :: "ModelOutputDef \<Rightarrow> string list" where
  "keys_redu self = dict_keys (def_redu self)"

definition keys_derv_r :: "ModelOutputDef \<Rightarrow> string list" where
  "keys_derv_r self = dict_keys (def_derv_r self)"

definition keys_hess_r :: "ModelOutputDef \<Rightarrow> string list" where
  "keys_hess_r self = dict_keys (def_hess_r self)"

definition keys_derv_c :: "ModelOutputDef \<Rightarrow> string list" where
  "keys_derv_c self = dict_keys (def_derv_c self)"

definition keys_derv_c_redu :: "ModelOutputDef \<Rightarrow> string list" where
  "keys_derv_c_redu self = dict_keys (def_derv_c_redu self)"

subsection \<open>The output-checking wrapper of a model\<close>





subsection \<open>Example inputs\<close>

text \<open>
  A reducible, differentiable, atomic variable \<^verbatim>\<open>energy\<close> of shape \<^verbatim>\<open>[1]\<close> with a given
  category, used to instantiate the theorems below.
\<close>

definition energy_with_category :: "int \<Rightarrow> OutputVariableDef" where
  "energy_with_category cat =
     \<lparr> name = ''energy'', shape = [1], output_size = 1, atomic = True, reducible = True,
       r_differentiable = True, c_differentiable = True, intensive = False, category = cat,
       r_hessian = False, magnetic = False \<rparr>"

text \<open>
  The fitting definition declaring that variable alone, with \<^verbatim>\<open>r_hessian\<close> as given, its
  data, and the dictionaries that \<open>ModelOutputDef_init\<close> builds from it (lemma
  \<open>energy_model_init\<close> below); \<open>energy_result\<close> is a result mapping of a model call for
  two frames of eight atoms.
\<close>

definition energy_fit :: "bool \<Rightarrow> FittingOutputDef" where
  "energy_fit hess = FittingOutputDef_init
     [(energy_with_category (category_value Cat_OUT))\<lparr>r_hessian := hess\<rparr>]"

definition energy_data :: "bool \<Rightarrow> OutputVariableDef dict" where
  "energy_data hess =
     [(''energy'', (energy_with_category (category_value Cat_OUT))\<lparr>r_hessian := hess\<rparr>)]"

definition energy_derv_r :: "bool \<Rightarrow> OutputVariableDef dict" where
  "energy_derv_r hess =
     [(''energy_derv_r'',
           \<lparr> name = ''energy_derv_r'', shape = [1, 3], output_size = 3, atomic = True,
             reducible = False, r_differentiable = hess, c_differentiable = False,
             intensive = False, category = 2, r_hessian = False, magnetic = False \<rparr>)]"

definition energy_derv_c :: "OutputVariableDef dict" where
  "energy_derv_c =
     [(''energy_derv_c'',
           \<lparr> name = ''energy_derv_c'', shape = [1, 9], output_size = 9, atomic = True,
             reducible = True, r_differentiable = False, c_differentiable = False,
             intensive = False, category = 4, r_hessian = False, magnetic = False \<rparr>)]"

definition energy_hess_r :: "bool \<Rightarrow> OutputVariableDef dict" where
  "energy_hess_r hess =
     (if hess then
        [(''energy_derv_r_derv_r'',
           \<lparr> name = ''energy_derv_r_derv_r'', shape = [1, 3, 3], output_size = 9, atomic = True,
             reducible = False, r_differentiable = False, c_differentiable = False,
             intensive = False, category = 10, r_hessian = False, magnetic = False \<rparr>)]
      else [])"

definition energy_model :: "bool \<Rightarrow> ModelOutputDef" where
  "energy_model hess =
     \<lparr> def_outp = energy_fit hess,
       def_redu =
         [(''energy_redu'',
           \<lparr> name = ''energy_redu'', shape = [1], output_size = 1, atomic = False,
             reducible = False, r_differentiable = False, c_differentiable = False,
             intensive = False, category = 1, r_hessian = False, magnetic = False \<rparr>)],
       def_derv_r = energy_derv_r hess,
       def_derv_c = energy_derv_c,
       def_hess_r = energy_hess_r hess,
       def_derv_c_redu =
         [(''energy_derv_c_redu'',
           \<lparr> name = ''energy_derv_c_redu'', shape = [1, 9], output_size = 9, atomic = False,
             reducible = False, r_differentiable = False, c_differentiable = False,
             intensive = False, category = 5, r_hessian = False, magnetic = False \<rparr>)],
       def_mask =
         [(''mask'',
           \<lparr> name = ''mask'', shape = [1], output_size = 1, atomic = True,
             reducible = False, r_differentiable = False, c_differentiable = False,
             intensive = False, category = 0, r_hessian = False, magnetic = False \<rparr>)],
       var_defs =
         energy_data hess @
         [(''energy_redu'',
           \<lparr> name = ''energy_redu'', shape = [1], output_size = 1, atomic = False,
             reducible = False, r_differentiable = False, c_differentiable = False,
             intensive = False, category = 1, r_hessian = False, magnetic = False \<rparr>)] @
         energy_derv_c @ energy_derv_r hess @
         [(''energy_derv_c_redu'',
           \<lparr> name = ''energy_derv_c_redu'', shape = [1, 9], output_size = 9, atomic = False,
             reducible = False, r_differentiable = False, c_differentiable = False,
             intensive = False, category = 5, r_hessian = False, magnetic = False \<rparr>)] @
         energy_hess_r hess @
         [(''mask'',
           \<lparr> name = ''mask'', shape = [1], output_size = 1, atomic = True,
             reducible = False, r_differentiable = False, c_differentiable = False,
             intensive = False, category = 0, r_hessian = False, magnetic = False \<rparr>)] \<rparr>"


text \<open>
  The same variable with \<^verbatim>\<open>magnetic=True\<close> and no \<^verbatim>\<open>r_hessian\<close>, and the
  coordinate-derivative mapping that \<open>do_derivative\<close> builds from it (lemma \<open>spin_derv\<close>
  below).
\<close>

definition spin_data :: "OutputVariableDef dict" where
  "spin_data =
     [(''energy'', (energy_with_category (category_value Cat_OUT))\<lparr>magnetic := True\<rparr>)]"

definition spin_derv_r :: "OutputVariableDef dict" where
  "spin_derv_r =
     [(''energy_derv_r'',
       \<lparr> name = ''energy_derv_r'', shape = [1, 3], output_size = 3, atomic = True,
         reducible = False, r_differentiable = False, c_differentiable = False,
         intensive = False, category = 2, r_hessian = False, magnetic = False \<rparr>),
      (''energy_derv_r_mag'',
       \<lparr> name = ''energy_derv_r_mag'', shape = [1, 3], output_size = 3, atomic = True,
         reducible = False, r_differentiable = False, c_differentiable = False,
         intensive = False, category = 2, r_hessian = False, magnetic = True \<rparr>),
      (''energy_derv_c_mag'',
       \<lparr> name = ''energy_derv_c_mag'', shape = [1, 9], output_size = 9, atomic = True,
         reducible = True, r_differentiable = False, c_differentiable = False,
         intensive = False, category = 4, r_hessian = False, magnetic = True \<rparr>)]"

subsection \<open>Notions used in the proofs\<close>

text \<open>
  \<open>derv_r_emits kk vv K w\<close>: the iteration of \<open>do_derivative\<close> for the item \<open>(kk, vv)\<close>
  assigns \<open>w\<close> to the key \<open>K\<close> of \<^verbatim>\<open>def_derv_r\<close>; \<open>derv_c_emits\<close> is the same for
  \<^verbatim>\<open>def_derv_c\<close>. \<open>entry_ok md ret kk\<close>: the checks that one iteration of the model wrapper
  makes for the key \<open>kk\<close> all pass.
\<close>

definition derv_r_emits ::
  "string \<Rightarrow> OutputVariableDef \<Rightarrow> string \<Rightarrow> OutputVariableDef \<Rightarrow> bool" where
  "derv_r_emits kk vv K w \<longleftrightarrow>
     (r_differentiable vv \<and> K = kk @ ''_derv_r''
        \<and> (\<exists>cat. apply_operation vv DERV_R = Inr cat
              \<and> OutputVariableDef_init K (shape vv @ [3]) False
                   (r_hessian vv \<and> category vv = category_value Cat_OUT)
                   False True cat False False False = Inr w))
     \<or> (r_differentiable vv \<and> magnetic vv \<and> K = kk @ ''_derv_r_mag''
        \<and> (\<exists>cat. apply_operation vv DERV_R = Inr cat
              \<and> OutputVariableDef_init K (shape vv @ [3]) False
                   (r_hessian vv \<and> category vv = category_value Cat_OUT)
                   False True cat False True False = Inr w))
     \<or> (c_differentiable vv \<and> magnetic vv \<and> K = kk @ ''_derv_c_mag''
        \<and> (\<exists>cat. apply_operation vv DERV_C = Inr cat
              \<and> OutputVariableDef_init K (shape vv @ [9]) True False False True cat
                   False True False = Inr w))"

definition derv_c_emits ::
  "string \<Rightarrow> OutputVariableDef \<Rightarrow> string \<Rightarrow> OutputVariableDef \<Rightarrow> bool" where
  "derv_c_emits kk vv K w \<longleftrightarrow>
     c_differentiable vv \<and> K = kk @ ''_derv_c''
     \<and> (\<exists>cat. apply_operation vv DERV_C = Inr cat
           \<and> OutputVariableDef_init K (shape vv @ [9]) True False False True cat
                False False False = Inr w)"


section \<open>Properties\<close>

subsection \<open>Helper facts\<close>

lemma output_size_loop_prod: "output_size_loop shp acc = acc * prod_list shp"
  by (induction shp arbitrary: acc) (simp_all add: mult.assoc)

lemma int_and_or_absorb: "((c::int) OR x) AND c = c"
  by (rule bit_eqI) (auto simp add: bit_simps)

lemma int_or_keeps_and: "(c::int) AND m = m \<Longrightarrow> (c OR x) AND m = m"
  by (metis and.assoc and.commute int_and_or_absorb)

lemma int_or_and_self: "((c::int) OR m) AND m = m"
  by (rule bit_eqI) (auto simp add: bit_simps)

subsection \<open>Derived names do not collide\<close>

lemma sfx_r_rm [simp]: "k @ ''_derv_r'' \<noteq> k' @ ''_derv_r_mag''"
proof
  assume "k @ ''_derv_r'' = k' @ ''_derv_r_mag''"
  then have "last (k @ ''_derv_r'') = last (k' @ ''_derv_r_mag'')" by simp
  then show False by simp
qed

lemma sfx_r_cm [simp]: "k @ ''_derv_r'' \<noteq> k' @ ''_derv_c_mag''"
proof
  assume "k @ ''_derv_r'' = k' @ ''_derv_c_mag''"
  then have "last (k @ ''_derv_r'') = last (k' @ ''_derv_c_mag'')" by simp
  then show False by simp
qed

lemma sfx_rm_cm [simp]: "k @ ''_derv_r_mag'' \<noteq> k' @ ''_derv_c_mag''"
  by simp

lemma sfx_c_cm [simp]: "k @ ''_derv_c'' \<noteq> k' @ ''_derv_c_mag''"
proof
  assume "k @ ''_derv_c'' = k' @ ''_derv_c_mag''"
  then have "last (k @ ''_derv_c'') = last (k' @ ''_derv_c_mag'')" by simp
  then show False by simp
qed

lemmas sfx_sym [simp] = sfx_r_rm [symmetric] sfx_r_cm [symmetric] sfx_rm_cm [symmetric]

lemma keys_map_of: "K \<in> set (dict_keys d) \<longleftrightarrow> map_of d K \<noteq> None"
  by (simp add: dict_keys_def map_of_eq_None_iff)

lemma getitem_map_of: "dict_getitem d K = Inr w \<longleftrightarrow> map_of d K = Some w"
  by (simp add: dict_getitem_def split: option.splits)

subsection \<open>One iteration of the derivative loop\<close>

lemmas body_defs = do_derivative_body_def derv_r_block_def derv_c_block_def
  get_deriv_name_def get_deriv_name_mag_def dict_setitem_def Let_def

lemma body_r_sound:
  "do_derivative_body kk vv dr dc = Inr (dr', dc') \<Longrightarrow> map_of dr' K = Some w \<Longrightarrow>
     map_of dr K = Some w \<or> derv_r_emits kk vv K w"
  by (auto simp add: body_defs derv_r_emits_def update_conv'
        split: if_splits sum.splits)

lemma body_r_complete:
  "do_derivative_body kk vv dr dc = Inr (dr', dc') \<Longrightarrow> derv_r_emits kk vv K w \<Longrightarrow>
     map_of dr' K = Some w"
  by (auto simp add: body_defs derv_r_emits_def update_conv'
        split: if_splits sum.splits)

lemma body_r_other:
  "do_derivative_body kk vv dr dc = Inr (dr', dc') \<Longrightarrow>
     K \<noteq> kk @ ''_derv_r'' \<Longrightarrow> K \<noteq> kk @ ''_derv_r_mag'' \<Longrightarrow> K \<noteq> kk @ ''_derv_c_mag'' \<Longrightarrow>
     map_of dr' K = map_of dr K"
  by (auto simp add: body_defs update_conv' split: if_splits sum.splits)

lemma body_c_sound:
  "do_derivative_body kk vv dr dc = Inr (dr', dc') \<Longrightarrow> map_of dc' K = Some w \<Longrightarrow>
     map_of dc K = Some w \<or> derv_c_emits kk vv K w"
  by (auto simp add: body_defs derv_c_emits_def update_conv'
        split: if_splits sum.splits)

lemma body_c_complete:
  "do_derivative_body kk vv dr dc = Inr (dr', dc') \<Longrightarrow> derv_c_emits kk vv K w \<Longrightarrow>
     map_of dc' K = Some w"
  by (auto simp add: body_defs derv_c_emits_def update_conv'
        split: if_splits sum.splits)

lemma body_c_other:
  "do_derivative_body kk vv dr dc = Inr (dr', dc') \<Longrightarrow> K \<noteq> kk @ ''_derv_c'' \<Longrightarrow>
     map_of dc' K = map_of dc K"
  by (auto simp add: body_defs update_conv' split: if_splits sum.splits)

lemma body_distinct:
  "do_derivative_body kk vv dr dc = Inr (dr', dc') \<Longrightarrow>
     distinct (map fst dr) \<Longrightarrow> distinct (map fst dc) \<Longrightarrow>
     distinct (map fst dr') \<and> distinct (map fst dc')"
  by (auto simp add: body_defs distinct_update split: if_splits sum.splits)

lemma body_emits_r:
  "do_derivative_body k v a b = Inr (a', b') \<Longrightarrow> r_differentiable v \<Longrightarrow>
     \<exists>w. derv_r_emits k v (k @ ''_derv_r'') w \<and> name w = k @ ''_derv_r''
        \<and> shape w = shape v @ [3] \<and> atomic w \<and> \<not> reducible w \<and> \<not> c_differentiable w
        \<and> r_differentiable w = (r_hessian v \<and> category v = category_value Cat_OUT)"
  by (auto simp add: body_defs derv_r_emits_def OutputVariableDef_init_def
        split: if_splits sum.splits)

lemma body_emits_cm:
  "do_derivative_body k v a b = Inr (a', b') \<Longrightarrow> c_differentiable v \<Longrightarrow> magnetic v \<Longrightarrow>
     \<exists>w. derv_r_emits k v (k @ ''_derv_c_mag'') w \<and> name w = k @ ''_derv_c_mag''
        \<and> shape w = shape v @ [9] \<and> reducible w \<and> atomic w \<and> magnetic w
        \<and> \<not> r_differentiable w \<and> \<not> c_differentiable w
        \<and> apply_operation v DERV_C = Inr (category w)"
  by (auto simp add: body_defs derv_r_emits_def OutputVariableDef_init_def
        split: if_splits sum.splits)

lemma body_emits_c:
  "do_derivative_body k v a b = Inr (a', b') \<Longrightarrow> c_differentiable v \<Longrightarrow>
     \<exists>u. derv_c_emits k v (k @ ''_derv_c'') u \<and> name u = k @ ''_derv_c''
        \<and> shape u = shape v @ [9] \<and> reducible u \<and> atomic u \<and> \<not> magnetic u
        \<and> \<not> r_differentiable u \<and> \<not> c_differentiable u
        \<and> apply_operation v DERV_C = Inr (category u)"
  by (auto simp add: body_defs derv_c_emits_def OutputVariableDef_init_def
        split: if_splits sum.splits)

lemma body_returns:
  "category v = category_value Cat_OUT \<Longrightarrow> (c_differentiable v \<longrightarrow> r_differentiable v) \<Longrightarrow>
     \<exists>a' b'. do_derivative_body k v a b = Inr (a', b')"
  by (simp add: body_defs apply_operation_def check_operation_applied_def
        OutputVariableDef_init_def)

lemma derv_r_emits_key:
  "derv_r_emits k v K w \<Longrightarrow>
     K = k @ ''_derv_r'' \<or> K = k @ ''_derv_r_mag'' \<or> K = k @ ''_derv_c_mag''"
  by (auto simp add: derv_r_emits_def)

lemma emits_derv_r_key:
  "derv_r_emits k2 v2 (k0 @ ''_derv_r'') y \<Longrightarrow> k2 = k0 \<and> r_differentiable v2"
  by (auto simp add: derv_r_emits_def)

subsection \<open>The derivative loop\<close>

lemma loop_r_sound:
  "do_derivative_loop items dr0 dc0 = Inr (dr, dc) \<Longrightarrow> map_of dr K = Some w \<Longrightarrow>
     map_of dr0 K = Some w \<or> (\<exists>(k, v) \<in> set items. derv_r_emits k v K w)"
proof (induction items arbitrary: dr0 dc0)
  case Nil
  then show ?case by simp
next
  case (Cons a items)
  obtain k v where a: "a = (k, v)" by (cases a)
  from Cons.prems(1) a obtain dr1 dc1 where
    b: "do_derivative_body k v dr0 dc0 = Inr (dr1, dc1)" and
    l: "do_derivative_loop items dr1 dc1 = Inr (dr, dc)"
    by (auto split: sum.splits)
  from Cons.IH [OF l Cons.prems(2)] body_r_sound [OF b] a show ?case
    by auto
qed

lemma loop_c_sound:
  "do_derivative_loop items dr0 dc0 = Inr (dr, dc) \<Longrightarrow> map_of dc K = Some w \<Longrightarrow>
     map_of dc0 K = Some w \<or> (\<exists>(k, v) \<in> set items. derv_c_emits k v K w)"
proof (induction items arbitrary: dr0 dc0)
  case Nil
  then show ?case by simp
next
  case (Cons a items)
  obtain k v where a: "a = (k, v)" by (cases a)
  from Cons.prems(1) a obtain dr1 dc1 where
    b: "do_derivative_body k v dr0 dc0 = Inr (dr1, dc1)" and
    l: "do_derivative_loop items dr1 dc1 = Inr (dr, dc)"
    by (auto split: sum.splits)
  from Cons.IH [OF l Cons.prems(2)] body_c_sound [OF b] a show ?case
    by auto
qed

lemma loop_r_other:
  "do_derivative_loop items dr0 dc0 = Inr (dr, dc) \<Longrightarrow>
     \<forall>(k, v) \<in> set items.
        K \<noteq> k @ ''_derv_r'' \<and> K \<noteq> k @ ''_derv_r_mag'' \<and> K \<noteq> k @ ''_derv_c_mag'' \<Longrightarrow>
     map_of dr K = map_of dr0 K"
proof (induction items arbitrary: dr0 dc0)
  case Nil
  then show ?case by simp
next
  case (Cons a items)
  obtain k v where a: "a = (k, v)" by (cases a)
  from Cons.prems(1) a obtain dr1 dc1 where
    b: "do_derivative_body k v dr0 dc0 = Inr (dr1, dc1)" and
    l: "do_derivative_loop items dr1 dc1 = Inr (dr, dc)"
    by (auto split: sum.splits)
  have "map_of dr K = map_of dr1 K"
    using Cons.IH [OF l] Cons.prems(2) by simp
  moreover have "map_of dr1 K = map_of dr0 K"
    using body_r_other [OF b] Cons.prems(2) a by simp
  ultimately show ?case by simp
qed

lemma loop_c_other:
  "do_derivative_loop items dr0 dc0 = Inr (dr, dc) \<Longrightarrow>
     \<forall>(k, v) \<in> set items. K \<noteq> k @ ''_derv_c'' \<Longrightarrow>
     map_of dc K = map_of dc0 K"
proof (induction items arbitrary: dr0 dc0)
  case Nil
  then show ?case by simp
next
  case (Cons a items)
  obtain k v where a: "a = (k, v)" by (cases a)
  from Cons.prems(1) a obtain dr1 dc1 where
    b: "do_derivative_body k v dr0 dc0 = Inr (dr1, dc1)" and
    l: "do_derivative_loop items dr1 dc1 = Inr (dr, dc)"
    by (auto split: sum.splits)
  have "map_of dc K = map_of dc1 K"
    using Cons.IH [OF l] Cons.prems(2) by simp
  moreover have "map_of dc1 K = map_of dc0 K"
    using body_c_other [OF b] Cons.prems(2) a by simp
  ultimately show ?case by simp
qed

lemma loop_r_complete:
  "do_derivative_loop items dr0 dc0 = Inr (dr, dc) \<Longrightarrow> distinct (map fst items) \<Longrightarrow>
     (k, v) \<in> set items \<Longrightarrow> derv_r_emits k v K w \<Longrightarrow> map_of dr K = Some w"
proof (induction items arbitrary: dr0 dc0)
  case Nil
  then show ?case by simp
next
  case (Cons a items)
  obtain k' v' where a: "a = (k', v')" by (cases a)
  from Cons.prems(1) a obtain dr1 dc1 where
    b: "do_derivative_body k' v' dr0 dc0 = Inr (dr1, dc1)" and
    l: "do_derivative_loop items dr1 dc1 = Inr (dr, dc)"
    by (auto split: sum.splits)
  show ?case
  proof (cases "(k, v) \<in> set items")
    case True
    with Cons.IH [OF l] Cons.prems show ?thesis by simp
  next
    case False
    with Cons.prems a have e: "k' = k" "v' = v" by auto
    have "\<forall>(k2, v2) \<in> set items. k2 \<noteq> k"
      using Cons.prems(2) a e by force
    with derv_r_emits_key [OF Cons.prems(4)]
    have "\<forall>(k2, v2) \<in> set items.
        K \<noteq> k2 @ ''_derv_r'' \<and> K \<noteq> k2 @ ''_derv_r_mag'' \<and> K \<noteq> k2 @ ''_derv_c_mag''"
      by auto
    from loop_r_other [OF l this] body_r_complete [OF b] e Cons.prems(4)
    show ?thesis by simp
  qed
qed

lemma loop_c_complete:
  "do_derivative_loop items dr0 dc0 = Inr (dr, dc) \<Longrightarrow> distinct (map fst items) \<Longrightarrow>
     (k, v) \<in> set items \<Longrightarrow> derv_c_emits k v K w \<Longrightarrow> map_of dc K = Some w"
proof (induction items arbitrary: dr0 dc0)
  case Nil
  then show ?case by simp
next
  case (Cons a items)
  obtain k' v' where a: "a = (k', v')" by (cases a)
  from Cons.prems(1) a obtain dr1 dc1 where
    b: "do_derivative_body k' v' dr0 dc0 = Inr (dr1, dc1)" and
    l: "do_derivative_loop items dr1 dc1 = Inr (dr, dc)"
    by (auto split: sum.splits)
  show ?case
  proof (cases "(k, v) \<in> set items")
    case True
    with Cons.IH [OF l] Cons.prems show ?thesis by simp
  next
    case False
    with Cons.prems a have e: "k' = k" "v' = v" by auto
    have "\<forall>(k2, v2) \<in> set items. k2 \<noteq> k"
      using Cons.prems(2) a e by force
    with Cons.prems(4)
    have "\<forall>(k2, v2) \<in> set items. K \<noteq> k2 @ ''_derv_c''"
      by (auto simp add: derv_c_emits_def)
    from loop_c_other [OF l this] body_c_complete [OF b] e Cons.prems(4)
    show ?thesis by simp
  qed
qed

lemma loop_distinct:
  "do_derivative_loop items dr0 dc0 = Inr (dr, dc) \<Longrightarrow>
     distinct (map fst dr0) \<Longrightarrow> distinct (map fst dc0) \<Longrightarrow>
     distinct (map fst dr) \<and> distinct (map fst dc)"
proof (induction items arbitrary: dr0 dc0)
  case Nil
  then show ?case by simp
next
  case (Cons a items)
  obtain k v where a: "a = (k, v)" by (cases a)
  from Cons.prems(1) a obtain dr1 dc1 where
    b: "do_derivative_body k v dr0 dc0 = Inr (dr1, dc1)" and
    l: "do_derivative_loop items dr1 dc1 = Inr (dr, dc)"
    by (auto split: sum.splits)
  from body_distinct [OF b Cons.prems(2,3)] Cons.IH [OF l] show ?case by simp
qed

lemma loop_body_returns:
  "do_derivative_loop items dr0 dc0 = Inr (dr, dc) \<Longrightarrow> (k, v) \<in> set items \<Longrightarrow>
     \<exists>a b a' b'. do_derivative_body k v a b = Inr (a', b')"
proof (induction items arbitrary: dr0 dc0)
  case Nil
  then show ?case by simp
next
  case (Cons x items)
  obtain k' v' where x: "x = (k', v')" by (cases x)
  from Cons.prems(1) x obtain dr1 dc1 where
    b: "do_derivative_body k' v' dr0 dc0 = Inr (dr1, dc1)" and
    l: "do_derivative_loop items dr1 dc1 = Inr (dr, dc)"
    by (auto split: sum.splits)
  show ?case
  proof (cases "(k, v) \<in> set items")
    case True
    with Cons.IH [OF l] show ?thesis by simp
  next
    case False
    with Cons.prems(2) x b show ?thesis by auto
  qed
qed

lemma loop_returns:
  "\<forall>(k, v) \<in> set items. category v = category_value Cat_OUT
       \<and> (c_differentiable v \<longrightarrow> r_differentiable v) \<Longrightarrow>
     \<exists>dr dc. do_derivative_loop items dr0 dc0 = Inr (dr, dc)"
proof (induction items arbitrary: dr0 dc0)
  case Nil
  then show ?case by simp
next
  case (Cons x items)
  obtain k v where x: "x = (k, v)" by (cases x)
  with Cons.prems have "category v = category_value Cat_OUT"
    "c_differentiable v \<longrightarrow> r_differentiable v" by auto
  from body_returns [OF this] obtain a' b' where
    "do_derivative_body k v dr0 dc0 = Inr (a', b')" by blast
  moreover from Cons.IH [of a' b'] Cons.prems obtain dr dc where
    "do_derivative_loop items a' b' = Inr (dr, dc)" by auto
  ultimately show ?case using x by auto
qed

lemma do_derivative_returns:
  "\<forall>(k, v) \<in> set d. category v = category_value Cat_OUT
       \<and> (c_differentiable v \<longrightarrow> r_differentiable v) \<Longrightarrow>
     \<exists>dr dc. do_derivative d = Inr (dr, dc)"
  unfolding do_derivative_def by (rule loop_returns)

lemma no_second_derivative:
  assumes "do_derivative d = Inr (dr, dc)"
    and "distinct (map fst d)"
    and "(k, v) \<in> set d"
    and "r_differentiable v"
    and "\<not> (r_hessian v \<and> category v = category_value Cat_OUT)"
  shows "(\<exists>w. map_of dr (k @ ''_derv_r'') = Some w \<and> \<not> r_differentiable w)
     \<and> (\<forall>hr x. do_derivative dr = Inr (hr, x) \<longrightarrow> map_of hr (k @ ''_derv_r_derv_r'') = None)"
proof -
  have l: "do_derivative_loop d [] [] = Inr (dr, dc)"
    using assms(1) by (simp add: do_derivative_def)
  obtain a b a' b' where body: "do_derivative_body k v a b = Inr (a', b')"
    using loop_body_returns [OF l assms(3)] by blast
  obtain w where w: "derv_r_emits k v (k @ ''_derv_r'') w"
    "r_differentiable w = (r_hessian v \<and> category v = category_value Cat_OUT)"
    using body_emits_r [OF body assms(4)] by blast
  have rw: "map_of dr (k @ ''_derv_r'') = Some w"
    using loop_r_complete [OF l assms(2,3) w(1)] .
  have nw: "\<not> r_differentiable w"
    using w(2) assms(5) by simp
  have dd: "distinct (map fst dr)"
    using loop_distinct [OF l] by simp
  have "map_of hr (k @ ''_derv_r_derv_r'') = None"
    if h: "do_derivative dr = Inr (hr, x)" for hr x
  proof (rule ccontr)
    assume "map_of hr (k @ ''_derv_r_derv_r'') \<noteq> None"
    then obtain y where "map_of hr (k @ ''_derv_r_derv_r'') = Some y" by blast
    then have y: "map_of hr ((k @ ''_derv_r'') @ ''_derv_r'') = Some y" by simp
    have l2: "do_derivative_loop dr [] [] = Inr (hr, x)"
      using h by (simp add: do_derivative_def)
    from loop_r_sound [OF l2 y] obtain k2 v2 where
      m: "(k2, v2) \<in> set dr" and e: "derv_r_emits k2 v2 ((k @ ''_derv_r'') @ ''_derv_r'') y"
      by auto
    from emits_derv_r_key [OF e] have k2: "k2 = k @ ''_derv_r''" and r2: "r_differentiable v2"
      by simp_all
    from m dd have "map_of dr k2 = Some v2" by simp
    with rw k2 have "v2 = w" by simp
    with r2 nw show False by simp
  qed
  with rw nw show ?thesis by blast
qed

lemma model_init_parts:
  "ModelOutputDef_init fd = Inr md \<Longrightarrow>
     do_derivative (fit_get_data fd) = Inr (def_derv_r md, def_derv_c md)
     \<and> (\<exists>x. do_derivative (def_derv_r md) = Inr (def_hess_r md, x))
     \<and> def_outp md = fd"
  by (auto simp add: ModelOutputDef_init_def split: sum.splits prod.splits)

lemma derv_c_mag_entries:
  assumes "do_derivative d = Inr (dr, dc)"
    and "distinct (dict_keys d)"
    and "(k, v) \<in> set d"
    and "c_differentiable v"
    and "magnetic v"
  shows "(\<exists>w. dict_getitem dr (k @ ''_derv_c_mag'') = Inr w
            \<and> name w = k @ ''_derv_c_mag'' \<and> shape w = shape v @ [9]
            \<and> reducible w \<and> atomic w \<and> magnetic w
            \<and> apply_operation v DERV_C = Inr (category w))
         \<and> k @ ''_derv_c_mag'' \<notin> set (dict_keys dc)
         \<and> (\<exists>u. dict_getitem dc (k @ ''_derv_c'') = Inr u
            \<and> name u = k @ ''_derv_c'' \<and> shape u = shape v @ [9]
            \<and> reducible u \<and> atomic u \<and> \<not> magnetic u)
         \<and> (\<forall>fd md. fit_get_data fd = d \<and> ModelOutputDef_init fd = Inr md \<longrightarrow>
               k @ ''_derv_c_mag'' \<in> set (keys_derv_r md)
               \<and> k @ ''_derv_c_mag'' \<notin> set (keys_derv_c md)
               \<and> k @ ''_derv_c'' \<in> set (keys_derv_c md))"
proof -
  have l: "do_derivative_loop d [] [] = Inr (dr, dc)"
    using assms(1) by (simp add: do_derivative_def)
  have dist: "distinct (map fst d)"
    using assms(2) by (simp add: dict_keys_def)
  obtain a b a' b' where body: "do_derivative_body k v a b = Inr (a', b')"
    using loop_body_returns [OF l assms(3)] by blast
  obtain w where w: "derv_r_emits k v (k @ ''_derv_c_mag'') w"
    "name w = k @ ''_derv_c_mag''" "shape w = shape v @ [9]" "reducible w" "atomic w"
    "magnetic w" "apply_operation v DERV_C = Inr (category w)"
    using body_emits_cm [OF body assms(4,5)] by blast
  obtain u where u: "derv_c_emits k v (k @ ''_derv_c'') u"
    "name u = k @ ''_derv_c''" "shape u = shape v @ [9]" "reducible u" "atomic u"
    "\<not> magnetic u"
    using body_emits_c [OF body assms(4)] by blast
  have rw: "map_of dr (k @ ''_derv_c_mag'') = Some w"
    using loop_r_complete [OF l dist assms(3) w(1)] .
  have cu: "map_of dc (k @ ''_derv_c'') = Some u"
    using loop_c_complete [OF l dist assms(3) u(1)] .
  have cn: "map_of dc (k @ ''_derv_c_mag'') = None"
  proof (rule ccontr)
    assume "map_of dc (k @ ''_derv_c_mag'') \<noteq> None"
    then obtain x where "map_of dc (k @ ''_derv_c_mag'') = Some x" by blast
    from loop_c_sound [OF l this] show False
      by (auto simp add: derv_c_emits_def)
  qed
  have A: "\<exists>w. dict_getitem dr (k @ ''_derv_c_mag'') = Inr w
            \<and> name w = k @ ''_derv_c_mag'' \<and> shape w = shape v @ [9]
            \<and> reducible w \<and> atomic w \<and> magnetic w
            \<and> apply_operation v DERV_C = Inr (category w)"
    using rw w by (auto simp add: getitem_map_of)
  have B: "k @ ''_derv_c_mag'' \<notin> set (dict_keys dc)"
    using cn by (simp add: keys_map_of)
  have C: "\<exists>u. dict_getitem dc (k @ ''_derv_c'') = Inr u
            \<and> name u = k @ ''_derv_c'' \<and> shape u = shape v @ [9]
            \<and> reducible u \<and> atomic u \<and> \<not> magnetic u"
    using cu u by (auto simp add: getitem_map_of)
  have D: "k @ ''_derv_c_mag'' \<in> set (keys_derv_r md)
               \<and> k @ ''_derv_c_mag'' \<notin> set (keys_derv_c md)
               \<and> k @ ''_derv_c'' \<in> set (keys_derv_c md)"
    if "fit_get_data fd = d" "ModelOutputDef_init fd = Inr md" for fd md
  proof -
    from model_init_parts [OF that(2)] that(1) assms(1)
    have "def_derv_r md = dr" "def_derv_c md = dc" by simp_all
    then show ?thesis
      using rw cu cn by (simp add: keys_derv_r_def keys_derv_c_def keys_map_of)
  qed
  show ?thesis using A B C D by blast
qed

subsection \<open>The loop of the model wrapper\<close>




subsection \<open>The schema of the energy variable\<close>

lemma energy_init:
  "OutputVariableDef_init ''energy'' [1] True True True True (category_value Cat_OUT)
     hess False False
   = Inr ((energy_with_category (category_value Cat_OUT))\<lparr>r_hessian := hess\<rparr>)"
  by (simp add: OutputVariableDef_init_def energy_with_category_def)

lemma fit_energy: "fit_get_data (energy_fit hess) = energy_data hess"
  by (simp add: energy_fit_def FittingOutputDef_init_def fit_get_data_def energy_data_def
        dict_setitem_def energy_with_category_def)

lemma redu_energy:
  "do_reduce (energy_data hess) = Inr (def_redu (energy_model hess))"
  by (simp add: energy_model_def energy_data_def energy_with_category_def do_reduce_def
        do_reduce_body_def apply_operation_def check_operation_applied_def
        OutputVariableDef_init_def get_reduce_name_def dict_setitem_def Let_def)

lemma derv_energy:
  "do_derivative (energy_data hess) = Inr (energy_derv_r hess, energy_derv_c)"
  by (simp add: energy_data_def energy_with_category_def energy_derv_r_def energy_derv_c_def
        do_derivative_def do_derivative_body_def derv_r_block_def derv_c_block_def
        apply_operation_def check_operation_applied_def OutputVariableDef_init_def
        get_deriv_name_def get_deriv_name_mag_def dict_setitem_def Let_def)

lemma mask_energy:
  "do_mask (energy_data hess) = Inr (def_mask (energy_model hess))"
  by (simp add: energy_model_def energy_data_def energy_with_category_def do_mask_def
        OutputVariableDef_init_def dict_setitem_def)

lemma redu_derv_c_energy:
  "do_reduce energy_derv_c = Inr (def_derv_c_redu (energy_model hess))"
  by (simp add: energy_model_def energy_derv_c_def do_reduce_def do_reduce_body_def
        apply_operation_def check_operation_applied_def OutputVariableDef_init_def
        get_reduce_name_def dict_setitem_def Let_def)

lemma hess_energy:
  "do_derivative (energy_derv_r hess) = Inr (energy_hess_r hess, [])"
  by (simp add: energy_derv_r_def energy_hess_r_def do_derivative_def
        do_derivative_body_def derv_r_block_def derv_c_block_def
        apply_operation_def check_operation_applied_def OutputVariableDef_init_def
        get_deriv_name_def get_deriv_name_mag_def dict_setitem_def Let_def)

lemma energy_model_init: "ModelOutputDef_init (energy_fit hess) = Inr (energy_model hess)"
  unfolding ModelOutputDef_init_def fit_energy redu_energy derv_energy
  apply (simp add: hess_energy redu_derv_c_energy [of hess] mask_energy)
  apply (simp add: energy_model_def energy_data_def energy_derv_c_def energy_derv_r_def
       energy_hess_r_def dict_update_def dict_setitem_def)
  done


subsection \<open>Which entries of the first pass feed the second\<close>

lemma body_emits_rm:
  "do_derivative_body k v a b = Inr (a', b') \<Longrightarrow> r_differentiable v \<Longrightarrow> magnetic v \<Longrightarrow>
     \<exists>w. derv_r_emits k v (k @ ''_derv_r_mag'') w \<and> name w = k @ ''_derv_r_mag''
        \<and> shape w = shape v @ [3] \<and> atomic w \<and> magnetic w \<and> \<not> reducible w
        \<and> \<not> c_differentiable w
        \<and> r_differentiable w = (r_hessian v \<and> category v = category_value Cat_OUT)"
  by (auto simp add: body_defs derv_r_emits_def OutputVariableDef_init_def
        split: if_splits sum.splits)

lemma emits_not_c_differentiable:
  "derv_r_emits k v K w \<Longrightarrow> \<not> c_differentiable w"
  by (auto simp add: derv_r_emits_def OutputVariableDef_init_def split: if_splits)

lemma emits_r_differentiable_source:
  "derv_r_emits k v K w \<Longrightarrow> r_differentiable w \<Longrightarrow>
     r_differentiable v \<and> r_hessian v \<and> category v = category_value Cat_OUT
     \<and> (K = k @ ''_derv_r'' \<or> magnetic v \<and> K = k @ ''_derv_r_mag'')"
  by (auto simp add: derv_r_emits_def OutputVariableDef_init_def split: if_splits)

lemma emits_from_key:
  "derv_r_emits k2 v2 K y \<Longrightarrow>
     K = k0 @ ''_derv_r'' \<or> K = k0 @ ''_derv_r_mag'' \<or> K = k0 @ ''_derv_c_mag'' \<Longrightarrow>
     k2 = k0 \<and> (r_differentiable v2 \<or> c_differentiable v2)"
  by (auto simp add: derv_r_emits_def)

lemma emits_c_from_key:
  "derv_c_emits k2 v2 K y \<Longrightarrow> k2 @ ''_derv_c'' = K \<and> c_differentiable v2"
  by (auto simp add: derv_c_emits_def)

lemma first_pass_not_c_differentiable:
  assumes "do_derivative d = Inr (dr, dc)" and "map_of dr K = Some w"
  shows "\<not> c_differentiable w"
proof -
  have l: "do_derivative_loop d [] [] = Inr (dr, dc)"
    using assms(1) by (simp add: do_derivative_def)
  from loop_r_sound [OF l assms(2)] obtain k v where "derv_r_emits k v K w" by auto
  then show ?thesis by (rule emits_not_c_differentiable)
qed

lemma first_pass_r_differentiable_source:
  assumes "do_derivative d = Inr (dr, dc)" and "map_of dr K = Some w"
    and "r_differentiable w"
  shows "\<exists>(k, v) \<in> set d. r_differentiable v \<and> r_hessian v
           \<and> category v = category_value Cat_OUT
           \<and> (K = k @ ''_derv_r'' \<or> magnetic v \<and> K = k @ ''_derv_r_mag'')"
proof -
  have l: "do_derivative_loop d [] [] = Inr (dr, dc)"
    using assms(1) by (simp add: do_derivative_def)
  from loop_r_sound [OF l assms(2)] obtain k v where
    m: "(k, v) \<in> set d" and e: "derv_r_emits k v K w" by auto
  from emits_r_differentiable_source [OF e assms(3)] m show ?thesis by blast
qed

lemma first_pass_distinct:
  assumes "do_derivative d = Inr (dr, dc)"
  shows "distinct (map fst dr) \<and> distinct (map fst dc)"
proof -
  have l: "do_derivative_loop d [] [] = Inr (dr, dc)"
    using assms(1) by (simp add: do_derivative_def)
  from loop_distinct [OF l] show ?thesis by simp
qed

lemma non_eligible_entries:
  assumes "do_derivative d = Inr (dr, dc)"
    and "distinct (map fst d)"
    and "(k, v) \<in> set d"
    and "\<not> (r_hessian v \<and> category v = category_value Cat_OUT)"
    and "K = k @ ''_derv_r'' \<or> K = k @ ''_derv_r_mag'' \<or> K = k @ ''_derv_c_mag''"
    and "map_of dr K = Some w"
  shows "\<not> r_differentiable w"
proof
  assume "r_differentiable w"
  from first_pass_r_differentiable_source [OF assms(1,6) this] obtain k' v' where
    m: "(k', v') \<in> set d" and
    e: "r_hessian v'" "category v' = category_value Cat_OUT" and
    K: "K = k' @ ''_derv_r'' \<or> magnetic v' \<and> K = k' @ ''_derv_r_mag''"
    by auto
  from K assms(5) have "k' = k" by auto
  with m assms(2,3) have "v' = v"
    by (metis eq_key_imp_eq_value)
  with e assms(4) show False by simp
qed

lemma second_pass_absent:
  assumes "do_derivative dr = Inr (hr, x)"
    and "distinct (map fst dr)"
    and "\<forall>w. map_of dr K = Some w \<longrightarrow> \<not> r_differentiable w \<and> \<not> c_differentiable w"
  shows "map_of hr (K @ ''_derv_r'') = None \<and> map_of hr (K @ ''_derv_r_mag'') = None
         \<and> map_of hr (K @ ''_derv_c_mag'') = None \<and> map_of x (K @ ''_derv_c'') = None"
proof -
  have l: "do_derivative_loop dr [] [] = Inr (hr, x)"
    using assms(1) by (simp add: do_derivative_def)
  have r: "map_of hr K' = None"
    if K': "K' = K @ ''_derv_r'' \<or> K' = K @ ''_derv_r_mag'' \<or> K' = K @ ''_derv_c_mag''"
    for K'
  proof (rule ccontr)
    assume "map_of hr K' \<noteq> None"
    then obtain y where "map_of hr K' = Some y" by blast
    from loop_r_sound [OF l this] obtain k2 v2 where
      m: "(k2, v2) \<in> set dr" and e: "derv_r_emits k2 v2 K' y" by auto
    from emits_from_key [OF e K'] have
      k2: "k2 = K" and f: "r_differentiable v2 \<or> c_differentiable v2" by simp_all
    from m assms(2) k2 have "map_of dr K = Some v2" by simp
    with assms(3) f show False by blast
  qed
  have c: "map_of x (K @ ''_derv_c'') = None"
  proof (rule ccontr)
    assume "map_of x (K @ ''_derv_c'') \<noteq> None"
    then obtain y where "map_of x (K @ ''_derv_c'') = Some y" by blast
    from loop_c_sound [OF l this] obtain k2 v2 where
      m: "(k2, v2) \<in> set dr" and e: "derv_c_emits k2 v2 (K @ ''_derv_c'') y" by auto
    from emits_c_from_key [OF e] have
      k2: "k2 = K" and f: "c_differentiable v2" by simp_all
    from m assms(2) k2 have "map_of dr K = Some v2" by simp
    with assms(3) f show False by blast
  qed
  from r c show ?thesis by blast
qed

lemma second_pass_source:
  assumes "do_derivative d = Inr (dr, dc)"
    and "do_derivative dr = Inr (hr, x)"
  shows "(\<forall>K'. map_of hr K' \<noteq> None \<longrightarrow>
            (\<exists>K w. map_of dr K = Some w \<and> r_differentiable w
                \<and> (K' = K @ ''_derv_r'' \<or> magnetic w \<and> K' = K @ ''_derv_r_mag'')))
         \<and> x = []"
proof -
  have l: "do_derivative_loop dr [] [] = Inr (hr, x)"
    using assms(2) by (simp add: do_derivative_def)
  have dd: "distinct (map fst dr)"
    using first_pass_distinct [OF assms(1)] by simp
  have a: "\<exists>K w. map_of dr K = Some w \<and> r_differentiable w
                \<and> (K' = K @ ''_derv_r'' \<or> magnetic w \<and> K' = K @ ''_derv_r_mag'')"
    if "map_of hr K' \<noteq> None" for K'
  proof -
    from that obtain y where "map_of hr K' = Some y" by blast
    from loop_r_sound [OF l this] obtain k2 v2 where
      m: "(k2, v2) \<in> set dr" and e: "derv_r_emits k2 v2 K' y" by auto
    from m dd have s: "map_of dr k2 = Some v2" by simp
    have nc: "\<not> c_differentiable v2"
      using first_pass_not_c_differentiable [OF assms(1) s] .
    from e nc have "r_differentiable v2
        \<and> (K' = k2 @ ''_derv_r'' \<or> magnetic v2 \<and> K' = k2 @ ''_derv_r_mag'')"
      by (auto simp add: derv_r_emits_def)
    with s show ?thesis by blast
  qed
  have "map_of x K' = None" for K'
  proof (rule ccontr)
    assume "map_of x K' \<noteq> None"
    then obtain y where "map_of x K' = Some y" by blast
    from loop_c_sound [OF l this] obtain k2 v2 where
      m: "(k2, v2) \<in> set dr" and e: "derv_c_emits k2 v2 K' y" by auto
    from m dd have s: "map_of dr k2 = Some v2" by simp
    from first_pass_not_c_differentiable [OF assms(1) s] emits_c_from_key [OF e]
    show False by simp
  qed
  then have "map_of x = Map.empty"
    by (intro ext)
  then have "x = []"
    by simp
  with a show ?thesis by blast
qed

lemma spin_derv:
  "\<exists>dc. do_derivative spin_data = Inr (spin_derv_r, dc)"
  by (simp add: spin_data_def spin_derv_r_def energy_with_category_def
        do_derivative_def do_derivative_body_def derv_r_block_def derv_c_block_def
        apply_operation_def check_operation_applied_def OutputVariableDef_init_def
        get_deriv_name_def get_deriv_name_mag_def dict_setitem_def Let_def)

lemma spin_hess: "do_derivative spin_derv_r = Inr ([], [])"
  by (simp add: spin_derv_r_def
        do_derivative_def do_derivative_body_def derv_r_block_def derv_c_block_def
        get_deriv_name_def get_deriv_name_mag_def dict_setitem_def Let_def)

lemma hessian_energy_example:
  "\<exists>e md h. OutputVariableDef_init ''energy'' [1] True True True True
                 (category_value Cat_OUT) True False False = Inr e
       \<and> ModelOutputDef_init (FittingOutputDef_init [e]) = Inr md
       \<and> md_keys md = [''energy'', ''energy_redu'', ''energy_derv_c'', ''energy_derv_r'',
                        ''energy_derv_c_redu'', ''energy_derv_r_derv_r'', ''mask'']
       \<and> keys_hess_r md = [''energy_derv_r_derv_r'']
       \<and> md_getitem md ''energy_derv_r_derv_r'' = Inr h \<and> shape h = [1, 3, 3]"
proof -
  have m: "ModelOutputDef_init (FittingOutputDef_init
          [(energy_with_category (category_value Cat_OUT))\<lparr>r_hessian := True\<rparr>])
        = Inr (energy_model True)"
    using energy_model_init [of True] by (simp add: energy_fit_def)
  have k: "md_keys (energy_model True) =
      [''energy'', ''energy_redu'', ''energy_derv_c'', ''energy_derv_r'',
       ''energy_derv_c_redu'', ''energy_derv_r_derv_r'', ''mask'']"
    by (simp add: md_keys_def dict_keys_def energy_model_def energy_data_def
          energy_derv_c_def energy_derv_r_def energy_hess_r_def)
  have hk: "keys_hess_r (energy_model True) = [''energy_derv_r_derv_r'']"
    by (simp add: keys_hess_r_def dict_keys_def energy_model_def energy_hess_r_def)
  have g: "\<exists>h. md_getitem (energy_model True) ''energy_derv_r_derv_r'' = Inr h
             \<and> shape h = [1, 3, 3]"
    by (simp add: md_getitem_def dict_getitem_def energy_model_def energy_data_def
          energy_derv_c_def energy_derv_r_def energy_hess_r_def)
  show ?thesis
    using energy_init [of True] m k hk g by blast
qed

lemma hessian_non_eligible:
  assumes h: "do_derivative d = Inr (dr, dc) \<and> distinct (dict_keys d) \<and> (k, v) \<in> set d
        \<and> r_differentiable v \<and> \<not> (r_hessian v \<and> category v = category_value Cat_OUT)"
  shows "(\<exists>w. dict_getitem dr (k @ ''_derv_r'') = Inr w \<and> \<not> r_differentiable w)
        \<and> (\<forall>hr x. do_derivative dr = Inr (hr, x) \<longrightarrow>
               k @ ''_derv_r_derv_r'' \<notin> set (dict_keys hr))
        \<and> (magnetic v \<longrightarrow>
             (\<exists>w. dict_getitem dr (k @ ''_derv_r_mag'') = Inr w \<and> \<not> r_differentiable w))
        \<and> (\<forall>K w. (K = k @ ''_derv_r'' \<or> K = k @ ''_derv_r_mag'' \<or> K = k @ ''_derv_c_mag'')
               \<and> dict_getitem dr K = Inr w \<longrightarrow> \<not> r_differentiable w)
        \<and> (\<forall>K hr x. (K = k @ ''_derv_r'' \<or> K = k @ ''_derv_r_mag''
                         \<or> K = k @ ''_derv_c_mag'')
               \<and> do_derivative dr = Inr (hr, x) \<longrightarrow>
               K @ ''_derv_r'' \<notin> set (dict_keys hr)
               \<and> K @ ''_derv_r_mag'' \<notin> set (dict_keys hr)
               \<and> K @ ''_derv_c_mag'' \<notin> set (dict_keys hr)
               \<and> K @ ''_derv_c'' \<notin> set (dict_keys x))"
proof -
  from h have h1: "do_derivative d = Inr (dr, dc)" and h3: "(k, v) \<in> set d"
    and h4: "r_differentiable v"
    and h5: "\<not> (r_hessian v \<and> category v = category_value Cat_OUT)"
    by simp_all
  have dist: "distinct (map fst d)"
    using h by (simp add: dict_keys_def)
  have l: "do_derivative_loop d [] [] = Inr (dr, dc)"
    using h1 by (simp add: do_derivative_def)
  have dd: "distinct (map fst dr)"
    using first_pass_distinct [OF h1] by simp
  have c1: "(\<exists>w. dict_getitem dr (k @ ''_derv_r'') = Inr w \<and> \<not> r_differentiable w)
        \<and> (\<forall>hr x. do_derivative dr = Inr (hr, x) \<longrightarrow>
               k @ ''_derv_r_derv_r'' \<notin> set (dict_keys hr))"
    using no_second_derivative [OF h1 dist h3 h4 h5]
    by (simp add: keys_map_of getitem_map_of)
  have c2: "magnetic v \<longrightarrow>
      (\<exists>w. dict_getitem dr (k @ ''_derv_r_mag'') = Inr w \<and> \<not> r_differentiable w)"
  proof
    assume mg: "magnetic v"
    obtain a b a' b' where body: "do_derivative_body k v a b = Inr (a', b')"
      using loop_body_returns [OF l h3] by blast
    obtain w where w: "derv_r_emits k v (k @ ''_derv_r_mag'') w"
      "r_differentiable w = (r_hessian v \<and> category v = category_value Cat_OUT)"
      using body_emits_rm [OF body h4 mg] by blast
    have "map_of dr (k @ ''_derv_r_mag'') = Some w"
      using loop_r_complete [OF l dist h3 w(1)] .
    with w(2) h5
    show "\<exists>w. dict_getitem dr (k @ ''_derv_r_mag'') = Inr w \<and> \<not> r_differentiable w"
      by (simp add: getitem_map_of)
  qed
  have c3: "\<forall>K w. (K = k @ ''_derv_r'' \<or> K = k @ ''_derv_r_mag'' \<or> K = k @ ''_derv_c_mag'')
               \<and> dict_getitem dr K = Inr w \<longrightarrow> \<not> r_differentiable w"
  proof (intro allI impI)
    fix K w
    assume a: "(K = k @ ''_derv_r'' \<or> K = k @ ''_derv_r_mag'' \<or> K = k @ ''_derv_c_mag'')
               \<and> dict_getitem dr K = Inr w"
    then have K: "K = k @ ''_derv_r'' \<or> K = k @ ''_derv_r_mag'' \<or> K = k @ ''_derv_c_mag''"
      and g: "map_of dr K = Some w"
      by (simp_all add: getitem_map_of)
    show "\<not> r_differentiable w"
      using non_eligible_entries [OF h1 dist h3 h5 K g] .
  qed
  have c4: "\<forall>K hr x. (K = k @ ''_derv_r'' \<or> K = k @ ''_derv_r_mag''
                         \<or> K = k @ ''_derv_c_mag'')
               \<and> do_derivative dr = Inr (hr, x) \<longrightarrow>
               K @ ''_derv_r'' \<notin> set (dict_keys hr)
               \<and> K @ ''_derv_r_mag'' \<notin> set (dict_keys hr)
               \<and> K @ ''_derv_c_mag'' \<notin> set (dict_keys hr)
               \<and> K @ ''_derv_c'' \<notin> set (dict_keys x)"
  proof (intro allI impI)
    fix K hr x
    assume a: "(K = k @ ''_derv_r'' \<or> K = k @ ''_derv_r_mag'' \<or> K = k @ ''_derv_c_mag'')
               \<and> do_derivative dr = Inr (hr, x)"
    then have K: "K = k @ ''_derv_r'' \<or> K = k @ ''_derv_r_mag'' \<or> K = k @ ''_derv_c_mag''"
      and p: "do_derivative dr = Inr (hr, x)"
      by simp_all
    have n: "\<forall>w. map_of dr K = Some w \<longrightarrow> \<not> r_differentiable w \<and> \<not> c_differentiable w"
    proof (intro allI impI)
      fix w
      assume g: "map_of dr K = Some w"
      show "\<not> r_differentiable w \<and> \<not> c_differentiable w"
        using non_eligible_entries [OF h1 dist h3 h5 K g]
          first_pass_not_c_differentiable [OF h1 g] by simp
    qed
    have "map_of hr (K @ ''_derv_r'') = None \<and> map_of hr (K @ ''_derv_r_mag'') = None
         \<and> map_of hr (K @ ''_derv_c_mag'') = None \<and> map_of x (K @ ''_derv_c'') = None"
      using p dd n by (rule second_pass_absent)
    then show "K @ ''_derv_r'' \<notin> set (dict_keys hr)
               \<and> K @ ''_derv_r_mag'' \<notin> set (dict_keys hr)
               \<and> K @ ''_derv_c_mag'' \<notin> set (dict_keys hr)
               \<and> K @ ''_derv_c'' \<notin> set (dict_keys x)"
      by (simp only: keys_map_of) simp
  qed
  from c1 c2 c3 c4 show ?thesis
    by (intro conjI) (erule conjunct1, erule conjunct2, assumption+)
qed

lemma hessian_sources:
  assumes h: "do_derivative d = Inr (dr, dc)"
  shows "(\<forall>K w. dict_getitem dr K = Inr w \<and> r_differentiable w \<longrightarrow>
           (\<exists>(k', v') \<in> set d. r_differentiable v' \<and> r_hessian v'
               \<and> category v' = category_value Cat_OUT
               \<and> (K = k' @ ''_derv_r'' \<or> magnetic v' \<and> K = k' @ ''_derv_r_mag'')))
        \<and> (\<forall>hr x. do_derivative dr = Inr (hr, x) \<longrightarrow>
             x = []
             \<and> (\<forall>K' \<in> set (dict_keys hr).
                  \<exists>K w. dict_getitem dr K = Inr w \<and> r_differentiable w
                    \<and> (K' = K @ ''_derv_r'' \<or> magnetic w \<and> K' = K @ ''_derv_r_mag'')))"
proof (intro conjI allI impI)
  fix K w
  assume a: "dict_getitem dr K = Inr w \<and> r_differentiable w"
  then have g: "map_of dr K = Some w" and r: "r_differentiable w"
    by (simp_all add: getitem_map_of)
  show "\<exists>(k', v') \<in> set d. r_differentiable v' \<and> r_hessian v'
               \<and> category v' = category_value Cat_OUT
               \<and> (K = k' @ ''_derv_r'' \<or> magnetic v' \<and> K = k' @ ''_derv_r_mag'')"
    using h g r by (rule first_pass_r_differentiable_source)
next
  fix hr x
  assume p: "do_derivative dr = Inr (hr, x)"
  show "x = []"
    using second_pass_source [OF h p] by simp
next
  fix hr x
  assume p: "do_derivative dr = Inr (hr, x)"
  show "\<forall>K' \<in> set (dict_keys hr).
                  \<exists>K w. dict_getitem dr K = Inr w \<and> r_differentiable w
                    \<and> (K' = K @ ''_derv_r'' \<or> magnetic w \<and> K' = K @ ''_derv_r_mag'')"
  proof
    fix K'
    assume "K' \<in> set (dict_keys hr)"
    then have "map_of hr K' \<noteq> None"
      by (simp add: keys_map_of)
    with second_pass_source [OF h p] have
      "\<exists>K w. map_of dr K = Some w \<and> r_differentiable w
                \<and> (K' = K @ ''_derv_r'' \<or> magnetic w \<and> K' = K @ ''_derv_r_mag'')"
      by blast
    then show "\<exists>K w. dict_getitem dr K = Inr w \<and> r_differentiable w
                    \<and> (K' = K @ ''_derv_r'' \<or> magnetic w \<and> K' = K @ ''_derv_r_mag'')"
      by (simp only: getitem_map_of)
  qed
qed

subsection \<open>Shape checks\<close>

text \<open>
  C2, as stated, fails: the wildcard \<open>-1\<close> is honoured in the last position of the expected
  shape only, so the actual shape \<open>[4, 5]\<close> against the expected shape \<open>[-1, 5]\<close> is a
  content mismatch and \<open>check_shape\<close> raises \<open>ValueError\<close>.
\<close>

theorem check_shape_leading_wildcard_fails:
  "check_shape [4, 5] [- 1, 5] = Inl (ValueError (ShapeNotMatching [4, 5] [- 1, 5]))"
  by (simp add: check_shape_def)

text \<open>
  C2, amended: \<open>check_shape\<close> succeeds on the actual shape \<open>[4, 5]\<close> against \<open>[4, -1]\<close>,
  fails with a shape mismatch on \<open>[4, 5]\<close> against \<open>[3, 5]\<close> and fails its length assertion
  on \<open>[4]\<close> against \<open>[4, 5]\<close>. For a non-empty expected shape it succeeds exactly when the
  lengths are equal and, if the last expected entry is \<open>-1\<close>, all entries but the last
  agree positionally, otherwise all entries agree.
\<close>

theorem check_shape_spec:
  "check_shape [4, 5] [4, - 1] = Inr ()
   \<and> check_shape [4, 5] [3, 5] = Inl (ValueError (ShapeNotMatching [4, 5] [3, 5]))
   \<and> check_shape [4] [4, 5] = Inl AssertionError
   \<and> (def_shape \<noteq> [] \<longrightarrow>
        (check_shape shp def_shape = Inr () \<longleftrightarrow>
           length shp = length def_shape
           \<and> (if last def_shape = - 1 then butlast shp = butlast def_shape
              else shp = def_shape)))"
  by (simp add: check_shape_def)

theorem check_shape_spec_witness:
  "[7, - 1] \<noteq> ([] :: int list) \<and> check_shape [7, 2] [7, - 1] = Inr ()"
  using check_shape_spec [of "[7, - 1]" "[7, 2]"] by simp

subsection \<open>Construction of a variable definition\<close>

text \<open>
  C4: the constructor of \<open>OutputVariableDef\<close> raises if and only if one of the four flag
  invariants is violated (c\_differentiable without r\_differentiable, reducible without
  atomic, intensive without reducible, r\_hessian without reducible or without
  r\_differentiable); when all four hold it returns a definition whose \<open>size\<close> is the
  product of the entries of its shape.
\<close>

theorem OutputVariableDef_init_spec:
  "(isl (OutputVariableDef_init nm shp redu r_diff c_diff atm cat r_hess mag intens) \<longleftrightarrow>
      (c_diff \<and> \<not> r_diff) \<or> (redu \<and> \<not> atm) \<or> (intens \<and> \<not> redu)
      \<or> (r_hess \<and> (\<not> redu \<or> \<not> r_diff)))
   \<and> ((c_diff \<longrightarrow> r_diff) \<and> (redu \<longrightarrow> atm) \<and> (intens \<longrightarrow> redu)
        \<and> (r_hess \<longrightarrow> redu \<and> r_diff) \<longrightarrow>
       (\<exists>d. OutputVariableDef_init nm shp redu r_diff c_diff atm cat r_hess mag intens = Inr d
             \<and> size_of d = prod_list shp))"
  by (auto simp add: OutputVariableDef_init_def size_of_def output_size_loop_prod)

theorem OutputVariableDef_init_spec_witness:
  "\<not> isl (OutputVariableDef_init ''energy'' [2, 3] True True True True 0 True False False)
   \<and> (\<exists>d. OutputVariableDef_init ''energy'' [2, 3] True True True True 0 True False False = Inr d
         \<and> size_of d = 6)"
  using OutputVariableDef_init_spec
    [of "''energy''" "[2, 3]" True True True True 0 True False False]
  by simp

text \<open>
  C8: for an atomic definition \<open>check_var\<close> requires the rank of the tensor to be
  \<open>len(var_def.shape) + 2\<close>, for a non-atomic one \<open>len(var_def.shape) + 1\<close>. A rank mismatch
  raises the \<^verbatim>\<open>length not matching\<close> error; with the right rank the result is that of
  \<open>check_shape\<close> on the stripped shape, which never raises the length error (its content
  error is \<^verbatim>\<open>shape not matching\<close>).
\<close>

theorem check_var_spec:
  "(atomic vd \<longrightarrow>
      (length (tshape var) \<noteq> length (shape vd) + 2 \<longrightarrow>
         check_var var vd = Inl (ValueError (LengthNotMatching (drop 2 (tshape var)) (shape vd))))
      \<and> (length (tshape var) = length (shape vd) + 2 \<longrightarrow>
         check_var var vd = check_shape (drop 2 (tshape var)) (shape vd)))
   \<and> (\<not> atomic vd \<longrightarrow>
      (length (tshape var) \<noteq> length (shape vd) + 1 \<longrightarrow>
         check_var var vd = Inl (ValueError (LengthNotMatching (drop 1 (tshape var)) (shape vd))))
      \<and> (length (tshape var) = length (shape vd) + 1 \<longrightarrow>
         check_var var vd = check_shape (drop 1 (tshape var)) (shape vd)))
   \<and> (check_var var vd = Inr () \<longrightarrow>
        length (tshape var) = length (shape vd) + (if atomic vd then 2 else 1))
   \<and> check_shape s ds \<noteq> Inl (ValueError (LengthNotMatching a b))"
  by (auto simp add: check_var_def check_shape_def)

theorem check_var_spec_witness:
  "atomic (energy_with_category 0)
   \<and> length (tshape \<lparr>tshape = [2, 8]\<rparr>) \<noteq> length (shape (energy_with_category 0)) + 2
   \<and> check_var \<lparr>tshape = [2, 8]\<rparr> (energy_with_category 0)
       = Inl (ValueError (LengthNotMatching [] [1]))
   \<and> check_var \<lparr>tshape = [2, 8, 1]\<rparr> (energy_with_category 0) = Inr ()
   \<and> check_var \<lparr>tshape = [2, 8, 5]\<rparr> (energy_with_category 0)
       = Inl (ValueError (ShapeNotMatching [5] [1]))"
  using check_var_spec [of "energy_with_category 0" "\<lparr>tshape = [2, 8]\<rparr>"]
        check_var_spec [of "energy_with_category 0" "\<lparr>tshape = [2, 8, 1]\<rparr>"]
        check_var_spec [of "energy_with_category 0" "\<lparr>tshape = [2, 8, 5]\<rparr>"]
  by (simp add: energy_with_category_def check_shape_def)

text \<open>
  C10: the constructor does not look at the entries of the shape: whether it raises does
  not depend on the shape, and \<open>size\<close> is the signed product of all entries, wildcard
  included. The variable \<^verbatim>\<open>dos\<close> of shape \<open>[-1]\<close> declared by \<^verbatim>\<open>DeepDOS.output_def\<close>
  has size \<open>-1\<close>.
\<close>

theorem OutputVariableDef_wildcard_size:
  "(isl (OutputVariableDef_init nm shp redu r_diff c_diff atm cat r_hess mag intens)
      \<longleftrightarrow> isl (OutputVariableDef_init nm [] redu r_diff c_diff atm cat r_hess mag intens))
   \<and> (OutputVariableDef_init nm shp redu r_diff c_diff atm cat r_hess mag intens = Inr d
        \<longrightarrow> shape d = shp \<and> size_of d = prod_list shp)
   \<and> (\<exists>dos. OutputVariableDef_init ''dos'' [- 1] True False False True
                (category_value Cat_OUT) False False False = Inr dos
              \<and> shape dos = [- 1] \<and> size_of dos = - 1)"
  by (auto simp add: OutputVariableDef_init_def size_of_def output_size_loop_prod)

theorem OutputVariableDef_wildcard_size_witness:
  "\<exists>d. OutputVariableDef_init ''dos'' [- 1, 4] True False False True 0 False False False = Inr d
       \<and> shape d = [- 1, 4] \<and> size_of d = - 4"
  using OutputVariableDef_wildcard_size
    [of "''dos''" "[- 1, 4]" True False False True 0 False False False]
  by (auto simp add: OutputVariableDef_init_def)

subsection \<open>The category algebra\<close>

text \<open>
  C5: \<open>apply_operation\<close> with \<open>DERV_R\<close> on a category that has the \<open>DERV_R\<close> bit but not
  the second-derivative bit returns the category with the second-derivative bit added; with
  both bits present it raises. With \<open>REDU\<close> or \<open>DERV_C\<close> it raises when that bit is set and
  otherwise returns the category or-ed with the operation. Any other operation raises the
  not-supported error.
\<close>

theorem apply_operation_spec:
  "(check_operation_applied v DERV_R \<and> \<not> check_operation_applied v Op_SEC_DERV_R \<longrightarrow>
      apply_operation v DERV_R = Inr (category v OR op_value Op_SEC_DERV_R)
      \<and> check_operation_applied (v\<lparr>category := category v OR op_value Op_SEC_DERV_R\<rparr>)
           Op_SEC_DERV_R)
   \<and> (check_operation_applied v DERV_R \<and> check_operation_applied v Op_SEC_DERV_R \<longrightarrow>
      apply_operation v DERV_R = Inl (ValueError (OperationAppliedTwice Op_SEC_DERV_R)))
   \<and> (\<not> check_operation_applied v DERV_R \<longrightarrow>
      apply_operation v DERV_R = Inr (category v OR op_value DERV_R))
   \<and> (op = REDU \<or> op = DERV_C \<longrightarrow>
      apply_operation v op =
        (if check_operation_applied v op then Inl (ValueError (OperationApplied op))
         else Inr (category v OR op_value op)))
   \<and> (op \<noteq> REDU \<and> op \<noteq> DERV_C \<and> op \<noteq> DERV_R \<longrightarrow>
      apply_operation v op = Inl (ValueError (OperationNotSupported op)))"
  by (auto simp add: apply_operation_def check_operation_applied_def int_or_and_self)

theorem apply_operation_spec_witness:
  "check_operation_applied (energy_with_category 2) DERV_R
   \<and> \<not> check_operation_applied (energy_with_category 2) Op_SEC_DERV_R
   \<and> apply_operation (energy_with_category 2) DERV_R = Inr 10
   \<and> check_operation_applied (energy_with_category 10) Op_SEC_DERV_R
   \<and> apply_operation (energy_with_category 10) DERV_R
       = Inl (ValueError (OperationAppliedTwice Op_SEC_DERV_R))
   \<and> apply_operation (energy_with_category 0) REDU = Inr 1
   \<and> apply_operation (energy_with_category 1) REDU = Inl (ValueError (OperationApplied REDU))
   \<and> apply_operation (energy_with_category 0) MAG = Inl (ValueError (OperationNotSupported MAG))"
  using apply_operation_spec [of "energy_with_category 2" REDU]
        apply_operation_spec [of "energy_with_category 10" REDU]
        apply_operation_spec [of "energy_with_category 0" REDU]
        apply_operation_spec [of "energy_with_category 1" REDU]
        apply_operation_spec [of "energy_with_category 0" MAG]
  by (simp add: check_operation_applied_def energy_with_category_def)

text \<open>
  C9: when \<open>apply_operation\<close> returns, the returned category contains every bit of the
  input category, so every operation that \<open>check_operation_applied\<close> reported before is
  still reported on the new category.
\<close>

theorem apply_operation_monotone:
  "apply_operation v op = Inr c \<Longrightarrow>
     c AND category v = category v
     \<and> (check_operation_applied v op' \<longrightarrow> check_operation_applied (v\<lparr>category := c\<rparr>) op')"
  by (auto simp add: apply_operation_def check_operation_applied_def int_and_or_absorb
        int_or_keeps_and split: if_splits)

theorem apply_operation_monotone_witness:
  "apply_operation (energy_with_category 4) DERV_R = Inr 6
   \<and> 6 AND category (energy_with_category 4) = category (energy_with_category 4)
   \<and> check_operation_applied (energy_with_category 4) DERV_C
   \<and> check_operation_applied ((energy_with_category 4)\<lparr>category := 6\<rparr>) DERV_C"
proof -
  have a: "apply_operation (energy_with_category 4) DERV_R = Inr 6"
    by (simp add: apply_operation_def check_operation_applied_def energy_with_category_def)
  have b: "check_operation_applied (energy_with_category 4) DERV_C"
    by (simp add: check_operation_applied_def energy_with_category_def)
  show ?thesis
    using a b apply_operation_monotone [OF a, of DERV_C] by simp
qed

subsection \<open>The model output definition\<close>

text \<open>
  C1: for the single base variable \<^verbatim>\<open>energy\<close> of shape \<open>[1]\<close>, reducible,
  r\_differentiable, c\_differentiable and atomic, with the other flags at their defaults,
  \<open>ModelOutputDef\<close> is constructed and the keys of its flat \<^verbatim>\<open>var_defs\<close> are exactly
  \<^verbatim>\<open>energy, energy_redu, energy_derv_r, energy_derv_c, energy_derv_c_redu, mask\<close>; the
  Hessian mapping is empty and no magnetic key occurs.
\<close>

theorem energy_model_keys:
  "\<exists>e md. OutputVariableDef_init ''energy'' [1] True True True True
              (category_value Cat_OUT) False False False = Inr e
     \<and> ModelOutputDef_init (FittingOutputDef_init [e]) = Inr md
     \<and> distinct (md_keys md)
     \<and> set (md_keys md) =
         {''energy'', ''energy_redu'', ''energy_derv_r'', ''energy_derv_c'',
          ''energy_derv_c_redu'', ''mask''}
     \<and> keys_hess_r md = []"
proof -
  have "ModelOutputDef_init (FittingOutputDef_init
          [(energy_with_category (category_value Cat_OUT))\<lparr>r_hessian := False\<rparr>])
        = Inr (energy_model False)"
    using energy_model_init [of False] by (simp add: energy_fit_def)
  moreover have "md_keys (energy_model False) =
      [''energy'', ''energy_redu'', ''energy_derv_c'', ''energy_derv_r'',
       ''energy_derv_c_redu'', ''mask'']"
    by (simp add: md_keys_def dict_keys_def energy_model_def energy_data_def
          energy_derv_c_def energy_derv_r_def energy_hess_r_def)
  moreover have "keys_hess_r (energy_model False) = []"
    by (simp add: keys_hess_r_def dict_keys_def energy_model_def energy_hess_r_def)
  ultimately show ?thesis
    using energy_init [of False] by auto
qed

text \<open>
  C3: with \<^verbatim>\<open>r_hessian=True\<close> in addition, the model output definition also has the key
  \<^verbatim>\<open>energy_derv_r_derv_r\<close>, of shape \<open>[1, 3, 3]\<close>. The Hessian mapping of any model output
  definition is the first component of \<open>do_derivative\<close> run on the coordinate-derivative
  mapping, itself the first component of \<open>do_derivative\<close> on the fitting data. For an
  r\_differentiable variable \<open>k\<close> that has no \<^verbatim>\<open>r_hessian\<close>, or whose category is not
  \<open>OUT\<close>, every entry the first pass writes for it (\<open>k + "_derv_r"\<close>, its magnetic twin
  \<open>k + "_derv_r_mag"\<close> and \<open>k + "_derv_c_mag"\<close>) has \<^verbatim>\<open>r_differentiable=False\<close>, and
  the second pass writes no entry derived from any of them, in either mapping. Conversely,
  every r\_differentiable entry of the first pass is the \<open>_derv_r\<close> or \<open>_derv_r_mag\<close> entry
  of a variable with \<^verbatim>\<open>r_hessian\<close> and category \<open>OUT\<close>, every key of the second pass is
  derived from such an entry, and the cell mapping of the second pass is empty.
\<close>

theorem hessian_spec:
  "(\<exists>e md h. OutputVariableDef_init ''energy'' [1] True True True True
                 (category_value Cat_OUT) True False False = Inr e
       \<and> ModelOutputDef_init (FittingOutputDef_init [e]) = Inr md
       \<and> md_keys md = [''energy'', ''energy_redu'', ''energy_derv_c'', ''energy_derv_r'',
                        ''energy_derv_c_redu'', ''energy_derv_r_derv_r'', ''mask'']
       \<and> keys_hess_r md = [''energy_derv_r_derv_r'']
       \<and> md_getitem md ''energy_derv_r_derv_r'' = Inr h \<and> shape h = [1, 3, 3])
   \<and> (ModelOutputDef_init fd = Inr md' \<longrightarrow>
        do_derivative (fit_get_data fd) = Inr (def_derv_r md', def_derv_c md')
        \<and> (\<exists>x. do_derivative (def_derv_r md') = Inr (def_hess_r md', x)))
   \<and> (do_derivative d = Inr (dr, dc) \<and> distinct (dict_keys d) \<and> (k, v) \<in> set d
        \<and> r_differentiable v \<and> \<not> (r_hessian v \<and> category v = category_value Cat_OUT) \<longrightarrow>
        (\<exists>w. dict_getitem dr (k @ ''_derv_r'') = Inr w \<and> \<not> r_differentiable w)
        \<and> (\<forall>hr x. do_derivative dr = Inr (hr, x) \<longrightarrow>
               k @ ''_derv_r_derv_r'' \<notin> set (dict_keys hr))
        \<and> (magnetic v \<longrightarrow>
             (\<exists>w. dict_getitem dr (k @ ''_derv_r_mag'') = Inr w \<and> \<not> r_differentiable w))
        \<and> (\<forall>K w. (K = k @ ''_derv_r'' \<or> K = k @ ''_derv_r_mag'' \<or> K = k @ ''_derv_c_mag'')
               \<and> dict_getitem dr K = Inr w \<longrightarrow> \<not> r_differentiable w)
        \<and> (\<forall>K hr x. (K = k @ ''_derv_r'' \<or> K = k @ ''_derv_r_mag''
                         \<or> K = k @ ''_derv_c_mag'')
               \<and> do_derivative dr = Inr (hr, x) \<longrightarrow>
               K @ ''_derv_r'' \<notin> set (dict_keys hr)
               \<and> K @ ''_derv_r_mag'' \<notin> set (dict_keys hr)
               \<and> K @ ''_derv_c_mag'' \<notin> set (dict_keys hr)
               \<and> K @ ''_derv_c'' \<notin> set (dict_keys x)))
   \<and> (do_derivative d = Inr (dr, dc) \<longrightarrow>
        (\<forall>K w. dict_getitem dr K = Inr w \<and> r_differentiable w \<longrightarrow>
           (\<exists>(k', v') \<in> set d. r_differentiable v' \<and> r_hessian v'
               \<and> category v' = category_value Cat_OUT
               \<and> (K = k' @ ''_derv_r'' \<or> magnetic v' \<and> K = k' @ ''_derv_r_mag'')))
        \<and> (\<forall>hr x. do_derivative dr = Inr (hr, x) \<longrightarrow>
             x = []
             \<and> (\<forall>K' \<in> set (dict_keys hr).
                  \<exists>K w. dict_getitem dr K = Inr w \<and> r_differentiable w
                    \<and> (K' = K @ ''_derv_r'' \<or> magnetic w \<and> K' = K @ ''_derv_r_mag''))))"
  apply (rule conjI)
   apply (rule hessian_energy_example)
  apply (rule conjI)
   apply (rule impI)
   apply (drule model_init_parts)
   apply blast
  apply (rule conjI)
   apply (rule impI)
   apply (erule hessian_non_eligible)
  apply (rule impI)
  apply (erule hessian_sources)
  done

theorem hessian_spec_witness:
  "ModelOutputDef_init (energy_fit True) = Inr (energy_model True)
   \<and> do_derivative (def_derv_r (energy_model True)) = Inr (def_hess_r (energy_model True), [])
   \<and> do_derivative (energy_data False) = Inr (energy_derv_r False, energy_derv_c)
   \<and> distinct (dict_keys (energy_data False))
   \<and> (\<exists>w. dict_getitem (energy_derv_r False) ''energy_derv_r'' = Inr w
          \<and> \<not> r_differentiable w)
   \<and> do_derivative (energy_derv_r False) = Inr ([], [])
   \<and> ''energy_derv_r_derv_r'' \<notin> set (dict_keys ([] :: OutputVariableDef dict))
   \<and> (\<exists>dc. do_derivative spin_data = Inr (spin_derv_r, dc))
   \<and> distinct (dict_keys spin_data)
   \<and> (\<exists>w. dict_getitem spin_derv_r ''energy_derv_r_mag'' = Inr w \<and> \<not> r_differentiable w)
   \<and> do_derivative spin_derv_r = Inr ([], [])
   \<and> ''energy_derv_r_mag_derv_r'' \<notin> set (dict_keys ([] :: OutputVariableDef dict))"
proof -
  let ?v = "(energy_with_category (category_value Cat_OUT))\<lparr>r_hessian := False\<rparr>"
  let ?s = "(energy_with_category (category_value Cat_OUT))\<lparr>magnetic := True\<rparr>"
  have h: "distinct (dict_keys (energy_data False)) \<and> (''energy'', ?v) \<in> set (energy_data False)
        \<and> r_differentiable ?v \<and> \<not> (r_hessian ?v \<and> category ?v = category_value Cat_OUT)"
    by (simp add: dict_keys_def energy_data_def energy_with_category_def)
  have e: "do_derivative (energy_derv_r False) = Inr ([], [])"
    using hess_energy [of False] by (simp add: energy_hess_r_def)
  have p: "do_derivative (def_derv_r (energy_model True))
             = Inr (def_hess_r (energy_model True), [])"
    using hess_energy [of True] by (simp add: energy_model_def)
  have 1: "ModelOutputDef_init (energy_fit True) = Inr (energy_model True)
   \<and> do_derivative (def_derv_r (energy_model True)) = Inr (def_hess_r (energy_model True), [])
   \<and> do_derivative (energy_data False) = Inr (energy_derv_r False, energy_derv_c)
   \<and> distinct (dict_keys (energy_data False))
   \<and> (\<exists>w. dict_getitem (energy_derv_r False) ''energy_derv_r'' = Inr w
          \<and> \<not> r_differentiable w)
   \<and> do_derivative (energy_derv_r False) = Inr ([], [])
   \<and> ''energy_derv_r_derv_r'' \<notin> set (dict_keys ([] :: OutputVariableDef dict))"
    using hessian_spec [of "energy_fit True" "energy_model True" "energy_data False"
      "energy_derv_r False" energy_derv_c "''energy''" ?v] h e p energy_model_init [of True]
      derv_energy [of False]
    by simp
  obtain dc where sd: "do_derivative spin_data = Inr (spin_derv_r, dc)"
    using spin_derv by blast
  have sh: "distinct (dict_keys spin_data) \<and> (''energy'', ?s) \<in> set spin_data
        \<and> r_differentiable ?s \<and> \<not> (r_hessian ?s \<and> category ?s = category_value Cat_OUT)
        \<and> magnetic ?s"
    by (simp add: dict_keys_def spin_data_def energy_with_category_def)
  have 2: "(\<exists>w. dict_getitem spin_derv_r ''energy_derv_r_mag'' = Inr w \<and> \<not> r_differentiable w)
     \<and> ''energy_derv_r_mag_derv_r'' \<notin> set (dict_keys ([] :: OutputVariableDef dict))"
    using hessian_spec [of _ _ spin_data spin_derv_r dc "''energy''" ?s] sd sh spin_hess
    by simp
  from 1 2 sd sh spin_hess show ?thesis by blast
qed

text \<open>
  C6: \<open>do_derivative\<close> returns on base variables (category \<open>OUT\<close>, c\_differentiable only
  with r\_differentiable). Whenever it returns, then for every variable \<open>k\<close> of its input
  that is c\_differentiable and magnetic the definition named \<open>k + "_derv_c_mag"\<close> (shape =
  base shape + \<open>[9]\<close>, reducible, atomic, magnetic) is in the coordinate-derivative mapping,
  the first component, whose keys \<open>keys_derv_r\<close> returns, and not in the cell-derivative
  mapping, which holds the non-magnetic \<open>k + "_derv_c"\<close>.
\<close>

theorem derv_c_mag_in_derv_r:
  "((\<forall>(k', v') \<in> set d. category v' = category_value Cat_OUT
        \<and> (c_differentiable v' \<longrightarrow> r_differentiable v'))
      \<longrightarrow> (\<exists>dr' dc'. do_derivative d = Inr (dr', dc')))
   \<and> (do_derivative d = Inr (dr, dc) \<and> distinct (dict_keys d) \<and> (k, v) \<in> set d
        \<and> c_differentiable v \<and> magnetic v \<longrightarrow>
        (\<exists>w. dict_getitem dr (k @ ''_derv_c_mag'') = Inr w
            \<and> name w = k @ ''_derv_c_mag'' \<and> shape w = shape v @ [9]
            \<and> reducible w \<and> atomic w \<and> magnetic w
            \<and> apply_operation v DERV_C = Inr (category w))
         \<and> k @ ''_derv_c_mag'' \<notin> set (dict_keys dc)
         \<and> (\<exists>u. dict_getitem dc (k @ ''_derv_c'') = Inr u
            \<and> name u = k @ ''_derv_c'' \<and> shape u = shape v @ [9]
            \<and> reducible u \<and> atomic u \<and> \<not> magnetic u)
         \<and> (\<forall>fd md. fit_get_data fd = d \<and> ModelOutputDef_init fd = Inr md \<longrightarrow>
               k @ ''_derv_c_mag'' \<in> set (keys_derv_r md)
               \<and> k @ ''_derv_c_mag'' \<notin> set (keys_derv_c md)
               \<and> k @ ''_derv_c'' \<in> set (keys_derv_c md)))"
  using do_derivative_returns [of d] derv_c_mag_entries [of d dr dc k v] by blast

theorem derv_c_mag_in_derv_r_witness:
  "distinct (dict_keys [(''energy'', (energy_with_category 0)\<lparr>magnetic := True\<rparr>)])
   \<and> c_differentiable ((energy_with_category 0)\<lparr>magnetic := True\<rparr>)
   \<and> magnetic ((energy_with_category 0)\<lparr>magnetic := True\<rparr>)
   \<and> (\<exists>dr dc. do_derivative [(''energy'', (energy_with_category 0)\<lparr>magnetic := True\<rparr>)]
                 = Inr (dr, dc)
         \<and> ''energy_derv_c_mag'' \<in> set (dict_keys dr)
         \<and> ''energy_derv_c_mag'' \<notin> set (dict_keys dc)
         \<and> ''energy_derv_c'' \<in> set (dict_keys dc))"
proof -
  let ?v = "(energy_with_category 0)\<lparr>magnetic := True\<rparr>"
  let ?d = "[(''energy'', ?v)]"
  have h: "distinct (dict_keys ?d)" "(''energy'', ?v) \<in> set ?d" "c_differentiable ?v"
    "magnetic ?v"
    by (simp_all add: dict_keys_def energy_with_category_def)
  have b: "\<forall>(k, v) \<in> set ?d. category v = category_value Cat_OUT
       \<and> (c_differentiable v \<longrightarrow> r_differentiable v)"
    by (simp add: energy_with_category_def)
  from derv_c_mag_in_derv_r [of ?d] b obtain dr dc where
    r: "do_derivative ?d = Inr (dr, dc)" by blast
  from derv_c_mag_in_derv_r [of ?d dr dc "''energy''" ?v] r h have
    "''energy_derv_c_mag'' \<in> set (dict_keys dr)
     \<and> ''energy_derv_c_mag'' \<notin> set (dict_keys dc)
     \<and> ''energy_derv_c'' \<in> set (dict_keys dc)"
    by (auto simp add: keys_map_of getitem_map_of)
  with r h show ?thesis by blast
qed

subsection \<open>The output-checking wrapper of a model\<close>



end
